theory Spec2Isabelle
  imports Main "HOL-Library.Word"
begin

section \<open>Values and exceptions\<close>

text \<open>
  The embedding follows \<^verbatim>\<open>snakeoil/data_source.py\<close> on the branch where
  \<^verbatim>\<open>compatibility.is_py3k\<close> holds: text (\<^verbatim>\<open>str\<close>) and binary data (\<^verbatim>\<open>bytes\<close>) are
  different types and the source converts between them. A \<^verbatim>\<open>str\<close> is a list of code
  points, a \<^verbatim>\<open>bytes\<close> a list of 8-bit words. \<open>Other\<close> stands for any object that is
  neither, and has neither an \<^verbatim>\<open>encode\<close> nor a \<^verbatim>\<open>decode\<close> attribute (\<^verbatim>\<open>None\<close>, an
  \<^verbatim>\<open>int\<close>).
\<close>

datatype error =
    TypeError | NotImplementedError | AttributeError | ValueError
  | UnicodeEncodeError | UnicodeDecodeError | EnvironmentError | MemoryError

type_synonym byte = "8 word"

datatype payload = Str "nat list" | Bytes "byte list" | Other



text \<open>A text literal of the source, as code points.\<close>

definition codepoints :: "string \<Rightarrow> nat list" where
  "codepoints s = map of_char s"

subsection \<open>The default codec\<close>

text \<open>
  \<^verbatim>\<open>str.encode()\<close> and \<^verbatim>\<open>bytes.decode()\<close> with no argument are strict UTF-8. A
  surrogate (\<open>0xD800\<close> to \<open>0xDFFF\<close>) cannot be encoded; a value from \<open>0x110000\<close> on
  is no code point of a \<^verbatim>\<open>str\<close>. The decoder refuses stray continuation bytes,
  truncated sequences, overlong forms, surrogates and values beyond \<open>0x10FFFF\<close>.
\<close>

definition byte_of :: "nat \<Rightarrow> byte" where
  "byte_of n = of_nat n"

definition encode_char :: "nat \<Rightarrow> byte list option" where
  "encode_char c =
    (if c < 0x80 then Some [byte_of c]
     else if c < 0x800 then
       Some [byte_of (0xC0 + c div 0x40), byte_of (0x80 + c mod 0x40)]
     else if c < 0x10000 then
       (if 0xD800 \<le> c \<and> c < 0xE000 then None
        else Some [byte_of (0xE0 + c div 0x1000), byte_of (0x80 + c div 0x40 mod 0x40),
                   byte_of (0x80 + c mod 0x40)])
     else if c < 0x110000 then
       Some [byte_of (0xF0 + c div 0x40000), byte_of (0x80 + c div 0x1000 mod 0x40),
             byte_of (0x80 + c div 0x40 mod 0x40), byte_of (0x80 + c mod 0x40)]
     else None)"

fun str_encode :: "nat list \<Rightarrow> error + byte list" where
  "str_encode [] = Inr []"
| "str_encode (c # cs) =
    (case encode_char c of
       None \<Rightarrow> Inl UnicodeEncodeError
     | Some bs \<Rightarrow> (case str_encode cs of Inl e \<Rightarrow> Inl e | Inr r \<Rightarrow> Inr (bs @ r)))"

definition is_cont :: "byte \<Rightarrow> bool" where
  "is_cont b = (0x80 \<le> unat b \<and> unat b < 0xC0)"

definition cont_bits :: "byte \<Rightarrow> nat" where
  "cont_bits b = unat b - 0x80"

definition prepend :: "nat \<Rightarrow> error + nat list \<Rightarrow> error + nat list" where
  "prepend c r = (case r of Inl e \<Rightarrow> Inl e | Inr cs \<Rightarrow> Inr (c # cs))"

fun bytes_decode :: "byte list \<Rightarrow> error + nat list" where
  "bytes_decode [] = Inr []"
| "bytes_decode (b0 # bs) =
    (if unat b0 < 0x80 then prepend (unat b0) (bytes_decode bs)
     else if unat b0 < 0xC2 then Inl UnicodeDecodeError
     else if unat b0 < 0xE0 then
       (case bs of
          b1 # r \<Rightarrow>
            if is_cont b1
            then prepend ((unat b0 - 0xC0) * 0x40 + cont_bits b1) (bytes_decode r)
            else Inl UnicodeDecodeError
        | _ \<Rightarrow> Inl UnicodeDecodeError)
     else if unat b0 < 0xF0 then
       (case bs of
          b1 # b2 # r \<Rightarrow>
            (let c = (unat b0 - 0xE0) * 0x1000 + cont_bits b1 * 0x40 + cont_bits b2
             in if is_cont b1 \<and> is_cont b2 \<and> 0x800 \<le> c \<and> \<not> (0xD800 \<le> c \<and> c < 0xE000)
                then prepend c (bytes_decode r)
                else Inl UnicodeDecodeError)
        | _ \<Rightarrow> Inl UnicodeDecodeError)
     else if unat b0 < 0xF5 then
       (case bs of
          b1 # b2 # b3 # r \<Rightarrow>
            (let c = (unat b0 - 0xF0) * 0x40000 + cont_bits b1 * 0x1000
                     + cont_bits b2 * 0x40 + cont_bits b3
             in if is_cont b1 \<and> is_cont b2 \<and> is_cont b3 \<and> 0x10000 \<le> c \<and> c < 0x110000
                then prepend c (bytes_decode r)
                else Inl UnicodeDecodeError)
        | _ \<Rightarrow> Inl UnicodeDecodeError)
     else Inl UnicodeDecodeError)"

section \<open>In-memory streams\<close>

text \<open>
  Modelled from the spec: \<^verbatim>\<open>snakeoil.stringio\<close> (the classes \<^verbatim>\<open>text_writable\<close>,
  \<^verbatim>\<open>bytes_writable\<close>, \<^verbatim>\<open>text_readonly\<close>, \<^verbatim>\<open>bytes_readonly\<close>) is missing. The spec
  treats them as the platform's in-memory stream primitives, so the writable ones behave as
  \<^verbatim>\<open>io.StringIO\<close> and \<^verbatim>\<open>io.BytesIO\<close>: a buffer, a position that starts at 0, and a
  closed flag; a write overwrites from the position and extends the buffer, padding with
  zeros when the position lies beyond the end. The read-only ones refuse every write with
  \<^verbatim>\<open>TypeError\<close>, as the module docstring of \<^verbatim>\<open>data_source.py\<close> shows.
  Every operation returns its outcome and the stream as the call leaves it.
\<close>

record 'a stream =
  buf :: "'a list"
  pos :: nat
  closed :: bool

definition s_init :: "'a list \<Rightarrow> 'a stream" where
  "s_init d = \<lparr>buf = d, pos = 0, closed = False\<rparr>"

definition s_read :: "int \<Rightarrow> 'a stream \<Rightarrow> (error + 'a list) \<times> 'a stream" where
  "s_read n s =
    (if closed s then (Inl ValueError, s)
     else let avail = drop (pos s) (buf s);
              d = (if n < 0 then avail else take (nat n) avail)
          in (Inr d, s\<lparr>pos := pos s + length d\<rparr>))"

definition overwrite :: "'a::zero list \<Rightarrow> nat \<Rightarrow> 'a list \<Rightarrow> 'a list" where
  "overwrite b p d =
    (let padded = b @ replicate (p - length b) 0
     in take p padded @ d @ drop (p + length d) padded)"

definition s_write :: "'a::zero list \<Rightarrow> 'a stream \<Rightarrow> (error + nat) \<times> 'a stream" where
  "s_write d s =
    (if closed s then (Inl ValueError, s)
     else if d = [] then (Inr 0, s)
     else (Inr (length d), s\<lparr>buf := overwrite (buf s) (pos s) d, pos := pos s + length d\<rparr>))"

definition s_seek :: "int \<Rightarrow> 'a stream \<Rightarrow> (error + nat) \<times> 'a stream" where
  "s_seek n s =
    (if closed s then (Inl ValueError, s)
     else if n < 0 then (Inl ValueError, s)
     else (Inr (nat n), s\<lparr>pos := nat n\<rparr>))"

definition s_tell :: "'a stream \<Rightarrow> (error + nat) \<times> 'a stream" where
  "s_tell s = (if closed s then (Inl ValueError, s) else (Inr (pos s), s))"

definition s_close :: "'a stream \<Rightarrow> 'a stream" where
  "s_close s = s\<lparr>closed := True\<rparr>"

text \<open>
  \<^verbatim>\<open>flush\<close> writes nothing for an in-memory stream. CPython's \<^verbatim>\<open>BytesIO.flush\<close> raises
  \<^verbatim>\<open>ValueError\<close> on a closed stream; its \<^verbatim>\<open>StringIO.flush\<close> returns on a closed stream
  too.
\<close>

definition text_flush :: "nat stream \<Rightarrow> (error + unit) \<times> nat stream" where
  "text_flush s = (Inr (), s)"

definition bytes_flush :: "byte stream \<Rightarrow> (error + unit) \<times> byte stream" where
  "bytes_flush s = (if closed s then (Inl ValueError, s) else (Inr (), s))"

section \<open>Handles of an in-memory source\<close>

text \<open>
  \<^verbatim>\<open>_mk_writable_cls(base, name)\<close> derives from a writable stream class a class with a
  \<^verbatim>\<open>_callback\<close> slot. The callback is any callable; it runs on the state \<open>'w\<close> of whatever
  it is bound to (for a handle of a \<^verbatim>\<open>data_source\<close>, that source) and either returns or
  raises. \<^verbatim>\<open>None\<close> is the only value of the model that is not callable.
\<close>

type_synonym 'w callback = "payload \<Rightarrow> 'w \<Rightarrow> (error + unit) \<times> 'w"

record ('a, 'w) kls =
  base :: "'a stream"
  callback :: "'w callback option"

datatype 'w handle =
    Text_wr_StringIO "(nat, 'w) kls"
  | Bytes_wr_StringIO "(byte, 'w) kls"
  | Text_ro_StringIO "nat stream"
  | Bytes_ro_StringIO "byte stream"

text \<open>\<^verbatim>\<open>kls.__init__(self, callback, data)\<close>, for the two bases.\<close>

definition text_wr_StringIO :: "'w callback option \<Rightarrow> payload \<Rightarrow> error + 'w handle" where
  "text_wr_StringIO cb d =
    (case cb of
       None \<Rightarrow> Inl TypeError
     | Some f \<Rightarrow>
        (case d of
           Str cs \<Rightarrow> Inr (Text_wr_StringIO \<lparr>base = s_init cs, callback = Some f\<rparr>)
         | _ \<Rightarrow> Inl TypeError))"

definition bytes_wr_StringIO :: "'w callback option \<Rightarrow> payload \<Rightarrow> error + 'w handle" where
  "bytes_wr_StringIO cb d =
    (case cb of
       None \<Rightarrow> Inl TypeError
     | Some f \<Rightarrow>
        (case d of
           Bytes bs \<Rightarrow> Inr (Bytes_wr_StringIO \<lparr>base = s_init bs, callback = Some f\<rparr>)
         | _ \<Rightarrow> Inl TypeError))"

definition text_ro_StringIO :: "payload \<Rightarrow> error + 'w handle" where
  "text_ro_StringIO d =
    (case d of Str cs \<Rightarrow> Inr (Text_ro_StringIO (s_init cs)) | _ \<Rightarrow> Inl TypeError)"

definition bytes_ro_StringIO :: "payload \<Rightarrow> error + 'w handle" where
  "bytes_ro_StringIO d =
    (case d of Bytes bs \<Rightarrow> Inr (Bytes_ro_StringIO (s_init bs)) | _ \<Rightarrow> Inl TypeError)"

text \<open>The class attribute \<^verbatim>\<open>exceptions\<close> of each handle class.\<close>

fun exceptions :: "'w handle \<Rightarrow> error list" where
  "exceptions (Text_wr_StringIO h) = [MemoryError]"
| "exceptions (Bytes_wr_StringIO h) = [MemoryError]"
| "exceptions (Text_ro_StringIO s) = [MemoryError, TypeError]"
| "exceptions (Bytes_ro_StringIO s) = [MemoryError, TypeError]"

text \<open>
  \<^verbatim>\<open>kls.close\<close>: flush; if a callback is set, seek to 0, read everything, call the callback
  with it and clear the slot; then close the base stream. An exception leaves the method at
  the call that raised it.
\<close>

definition kls_close ::
  "('a stream \<Rightarrow> (error + unit) \<times> 'a stream) \<Rightarrow> ('a list \<Rightarrow> payload) \<Rightarrow>
   ('a, 'w) kls \<Rightarrow> 'w \<Rightarrow> (error + unit) \<times> ('a, 'w) kls \<times> 'w" where
  "kls_close flush wrap h w =
    (case flush (base h) of
       (Inl e, s1) \<Rightarrow> (Inl e, h\<lparr>base := s1\<rparr>, w)
     | (Inr u, s1) \<Rightarrow>
        (case callback h of
           None \<Rightarrow> (Inr (), h\<lparr>base := s_close s1\<rparr>, w)
         | Some f \<Rightarrow>
            (case s_seek 0 s1 of
               (Inl e, s2) \<Rightarrow> (Inl e, h\<lparr>base := s2\<rparr>, w)
             | (Inr p, s2) \<Rightarrow>
                (case s_read (- 1) s2 of
                   (Inl e, s3) \<Rightarrow> (Inl e, h\<lparr>base := s3\<rparr>, w)
                 | (Inr d, s3) \<Rightarrow>
                    (case f (wrap d) w of
                       (Inl e, w') \<Rightarrow> (Inl e, h\<lparr>base := s3\<rparr>, w')
                     | (Inr u', w') \<Rightarrow>
                        (Inr (), h\<lparr>base := s_close s3, callback := None\<rparr>, w'))))))"

subsection \<open>Operations on a handle\<close>

text \<open>
  Every method the handle classes do not override is the base stream's. A text stream
  takes and returns \<^verbatim>\<open>str\<close>, a binary stream \<^verbatim>\<open>bytes\<close>; a write of the other kind raises
  \<^verbatim>\<open>TypeError\<close> (a text stream checks the argument before the closed flag, a binary stream
  after it).
\<close>

definition h_read :: "int \<Rightarrow> 'w handle \<Rightarrow> (error + payload) \<times> 'w handle" where
  "h_read n h =
    (case h of
       Text_wr_StringIO k \<Rightarrow>
         (case s_read n (base k) of (r, s') \<Rightarrow> (map_sum id Str r, Text_wr_StringIO (k\<lparr>base := s'\<rparr>)))
     | Bytes_wr_StringIO k \<Rightarrow>
         (case s_read n (base k) of (r, s') \<Rightarrow> (map_sum id Bytes r, Bytes_wr_StringIO (k\<lparr>base := s'\<rparr>)))
     | Text_ro_StringIO s \<Rightarrow>
         (case s_read n s of (r, s') \<Rightarrow> (map_sum id Str r, Text_ro_StringIO s'))
     | Bytes_ro_StringIO s \<Rightarrow>
         (case s_read n s of (r, s') \<Rightarrow> (map_sum id Bytes r, Bytes_ro_StringIO s')))"

definition h_write :: "payload \<Rightarrow> 'w handle \<Rightarrow> (error + nat) \<times> 'w handle" where
  "h_write d h =
    (case h of
       Text_wr_StringIO k \<Rightarrow>
         (case d of
            Str cs \<Rightarrow> (case s_write cs (base k) of (r, s') \<Rightarrow> (r, Text_wr_StringIO (k\<lparr>base := s'\<rparr>)))
          | _ \<Rightarrow> (Inl TypeError, h))
     | Bytes_wr_StringIO k \<Rightarrow>
         (if closed (base k) then (Inl ValueError, h)
          else case d of
            Bytes bs \<Rightarrow> (case s_write bs (base k) of (r, s') \<Rightarrow> (r, Bytes_wr_StringIO (k\<lparr>base := s'\<rparr>)))
          | _ \<Rightarrow> (Inl TypeError, h))
     | Text_ro_StringIO s \<Rightarrow> (Inl TypeError, h)
     | Bytes_ro_StringIO s \<Rightarrow> (Inl TypeError, h))"

definition h_seek :: "int \<Rightarrow> 'w handle \<Rightarrow> (error + nat) \<times> 'w handle" where
  "h_seek n h =
    (case h of
       Text_wr_StringIO k \<Rightarrow>
         (case s_seek n (base k) of (r, s') \<Rightarrow> (r, Text_wr_StringIO (k\<lparr>base := s'\<rparr>)))
     | Bytes_wr_StringIO k \<Rightarrow>
         (case s_seek n (base k) of (r, s') \<Rightarrow> (r, Bytes_wr_StringIO (k\<lparr>base := s'\<rparr>)))
     | Text_ro_StringIO s \<Rightarrow> (case s_seek n s of (r, s') \<Rightarrow> (r, Text_ro_StringIO s'))
     | Bytes_ro_StringIO s \<Rightarrow> (case s_seek n s of (r, s') \<Rightarrow> (r, Bytes_ro_StringIO s')))"

definition h_tell :: "'w handle \<Rightarrow> (error + nat) \<times> 'w handle" where
  "h_tell h =
    (case h of
       Text_wr_StringIO k \<Rightarrow> (fst (s_tell (base k)), h)
     | Bytes_wr_StringIO k \<Rightarrow> (fst (s_tell (base k)), h)
     | Text_ro_StringIO s \<Rightarrow> (fst (s_tell s), h)
     | Bytes_ro_StringIO s \<Rightarrow> (fst (s_tell s), h))"

definition h_flush :: "'w handle \<Rightarrow> (error + unit) \<times> 'w handle" where
  "h_flush h =
    (case h of
       Text_wr_StringIO k \<Rightarrow> (fst (text_flush (base k)), h)
     | Bytes_wr_StringIO k \<Rightarrow> (fst (bytes_flush (base k)), h)
     | Text_ro_StringIO s \<Rightarrow> (fst (text_flush s), h)
     | Bytes_ro_StringIO s \<Rightarrow> (fst (bytes_flush s), h))"

text \<open>
  \<^verbatim>\<open>close\<close> is \<^verbatim>\<open>kls.close\<close> on a writable handle and the base stream's on a read-only
  one. It is the only operation that is given the state the callback runs on.
\<close>

definition h_close :: "'w handle \<Rightarrow> 'w \<Rightarrow> (error + unit) \<times> 'w handle \<times> 'w" where
  "h_close h w =
    (case h of
       Text_wr_StringIO k \<Rightarrow>
         (case kls_close text_flush Str k w of (r, k', w') \<Rightarrow> (r, Text_wr_StringIO k', w'))
     | Bytes_wr_StringIO k \<Rightarrow>
         (case kls_close bytes_flush Bytes k w of (r, k', w') \<Rightarrow> (r, Bytes_wr_StringIO k', w'))
     | Text_ro_StringIO s \<Rightarrow> (Inr (), Text_ro_StringIO (s_close s), w)
     | Bytes_ro_StringIO s \<Rightarrow> (Inr (), Bytes_ro_StringIO (s_close s), w))"

text \<open>The content a handle holds, whatever its position (\<^verbatim>\<open>getvalue()\<close> of an open stream).\<close>

fun content :: "'w handle \<Rightarrow> payload" where
  "content (Text_wr_StringIO k) = Str (buf (base k))"
| "content (Bytes_wr_StringIO k) = Bytes (buf (base k))"
| "content (Text_ro_StringIO s) = Str (buf s)"
| "content (Bytes_ro_StringIO s) = Bytes (buf s)"

text \<open>
  A caller's use of a handle is a sequence of method calls; a call that raises leaves the
  handle and the source as they are at the raise, and the caller may go on.
\<close>

datatype op = Read int | Write payload | Seek int | Tell | Flush | Close

fun step :: "op \<Rightarrow> 'w handle \<times> 'w \<Rightarrow> 'w handle \<times> 'w" where
  "step (Read n) (h, w) = (snd (h_read n h), w)"
| "step (Write d) (h, w) = (snd (h_write d h), w)"
| "step (Seek n) (h, w) = (snd (h_seek n h), w)"
| "step Tell (h, w) = (snd (h_tell h), w)"
| "step Flush (h, w) = (snd (h_flush h), w)"
| "step Close (h, w) = snd (h_close h w)"

fun run :: "op list \<Rightarrow> 'w handle \<times> 'w \<Rightarrow> 'w handle \<times> 'w" where
  "run [] st = st"
| "run (c # cs) st = run cs (step c st)"

text \<open>The two read-only classes.\<close>

fun readonly :: "'w handle \<Rightarrow> bool" where
  "readonly (Text_ro_StringIO s) = True"
| "readonly (Bytes_ro_StringIO s) = True"
| "readonly h = False"

text \<open>
  A writable handle is armed with \<open>f\<close> while it is open and its callback slot holds \<open>f\<close>;
  it is spent once it is closed and the slot is empty.
\<close>

fun armed :: "'w handle \<Rightarrow> 'w callback \<Rightarrow> bool" where
  "armed (Text_wr_StringIO k) f = (\<not> closed (base k) \<and> callback k = Some f)"
| "armed (Bytes_wr_StringIO k) f = (\<not> closed (base k) \<and> callback k = Some f)"
| "armed h f = False"

fun spent :: "'w handle \<Rightarrow> bool" where
  "spent (Text_wr_StringIO k) = (closed (base k) \<and> callback k = None)"
| "spent (Bytes_wr_StringIO k) = (closed (base k) \<and> callback k = None)"
| "spent h = False"









section \<open>The in-memory source\<close>

datatype source_class = Data_source | Text_data_source | Bytes_data_source

record source =
  cls :: source_class
  data :: payload
  mutable :: bool

fun is_str :: "payload \<Rightarrow> bool" where
  "is_str (Str cs) = True"
| "is_str p = False"

fun is_bytes :: "payload \<Rightarrow> bool" where
  "is_bytes (Bytes bs) = True"
| "is_bytes p = False"

text \<open>\<^verbatim>\<open>x.encode()\<close> and \<^verbatim>\<open>x.decode()\<close>: a method of \<^verbatim>\<open>str\<close>, respectively of \<^verbatim>\<open>bytes\<close>, only.\<close>

fun py_encode :: "payload \<Rightarrow> error + payload" where
  "py_encode (Str cs) = map_sum id Bytes (str_encode cs)"
| "py_encode p = Inl AttributeError"

fun py_decode :: "payload \<Rightarrow> error + payload" where
  "py_decode (Bytes bs) = map_sum id Str (bytes_decode bs)"
| "py_decode p = Inl AttributeError"

text \<open>The constructors: \<^verbatim>\<open>data_source.__init__\<close> and the two checking ones.\<close>

definition data_source :: "payload \<Rightarrow> bool \<Rightarrow> source" where
  "data_source d m = \<lparr>cls = Data_source, data = d, mutable = m\<rparr>"

definition text_data_source :: "payload \<Rightarrow> bool \<Rightarrow> error + source" where
  "text_data_source d m =
    (if \<not> is_str d then Inl TypeError
     else Inr ((data_source d m)\<lparr>cls := Text_data_source\<rparr>))"

definition bytes_data_source :: "payload \<Rightarrow> bool \<Rightarrow> error + source" where
  "bytes_data_source d m =
    (if \<not> is_bytes d then Inl TypeError
     else Inr ((data_source d m)\<lparr>cls := Bytes_data_source\<rparr>))"

text \<open>\<^verbatim>\<open>_convert_data(self, mode)\<close>, which each of the two subclasses overrides.\<close>

definition convert_data :: "source \<Rightarrow> string \<Rightarrow> error + payload" where
  "convert_data self mode =
    (case cls self of
       Data_source \<Rightarrow>
         (if mode = ''bytes'' then
            (if is_bytes (data self) then Inr (data self) else py_encode (data self))
          else if is_str (data self) then Inr (data self)
          else py_decode (data self))
     | Text_data_source \<Rightarrow>
         (if mode \<noteq> ''bytes'' then Inr (data self) else py_encode (data self))
     | Bytes_data_source \<Rightarrow>
         (if mode = ''bytes'' then Inr (data self) else py_decode (data self)))"

text \<open>\<^verbatim>\<open>_reset_data(self, data)\<close>; a conversion that raises leaves \<^verbatim>\<open>self.data\<close> as it is.\<close>

definition reset_data :: "source \<Rightarrow> payload \<Rightarrow> error + source" where
  "reset_data self d =
    (if is_bytes (data self) then
       (if \<not> is_bytes d then
          (case py_encode d of Inl e \<Rightarrow> Inl e | Inr d' \<Rightarrow> Inr (self\<lparr>data := d'\<rparr>))
        else Inr (self\<lparr>data := d\<rparr>))
     else if \<not> is_str d then
       (case py_decode d of Inl e \<Rightarrow> Inl e | Inr d' \<Rightarrow> Inr (self\<lparr>data := d'\<rparr>))
     else Inr (self\<lparr>data := d\<rparr>))"

text \<open>The bound method \<^verbatim>\<open>self._reset_data\<close>, as the callback of a handle.\<close>

definition bound_reset_data :: "source callback" where
  "bound_reset_data d self =
    (case reset_data self d of Inl e \<Rightarrow> (Inl e, self) | Inr self' \<Rightarrow> (Inr (), self'))"

definition text_fileobj :: "source \<Rightarrow> bool \<Rightarrow> error + source handle" where
  "text_fileobj self writable =
    (if writable then
       (if \<not> mutable self then Inl TypeError
        else case convert_data self ''text'' of
               Inl e \<Rightarrow> Inl e
             | Inr d \<Rightarrow> text_wr_StringIO (Some bound_reset_data) d)
     else case convert_data self ''text'' of
            Inl e \<Rightarrow> Inl e
          | Inr d \<Rightarrow> text_ro_StringIO d)"

definition bytes_fileobj :: "source \<Rightarrow> bool \<Rightarrow> error + source handle" where
  "bytes_fileobj self writable =
    (if writable then
       (if \<not> mutable self then Inl TypeError
        else case convert_data self ''bytes'' of
               Inl e \<Rightarrow> Inl e
             | Inr d \<Rightarrow> bytes_wr_StringIO (Some bound_reset_data) d)
     else case convert_data self ''bytes'' of
            Inl e \<Rightarrow> Inl e
          | Inr d \<Rightarrow> bytes_ro_StringIO d)"

section \<open>The disk-backed source\<close>

text \<open>
  The file system is a map from paths to file contents. \<^verbatim>\<open>io.open\<close> follows the mode
  string: \<^verbatim>\<open>w\<close>, \<^verbatim>\<open>a\<close> and \<^verbatim>\<open>x\<close> create a missing file, \<^verbatim>\<open>w\<close> truncates an existing
  one, \<^verbatim>\<open>x\<close> refuses an existing one, and any other mode needs the file to exist. A failed
  open raises \<^verbatim>\<open>EnvironmentError\<close> (\<^verbatim>\<open>OSError\<close>). The handle records how it was opened;
  \<^verbatim>\<open>open_file\<close> adds the \<^verbatim>\<open>exceptions\<close> attribute.
\<close>

type_synonym filesystem = "string \<rightharpoonup> byte list"

record file_handle =
  file_path :: string
  file_mode :: string
  file_buffering :: int
  file_encoding :: "string option"
  file_exceptions :: "error list"

definition io_open ::
  "filesystem \<Rightarrow> string \<Rightarrow> string \<Rightarrow> int \<Rightarrow> string option \<Rightarrow>
   (error + file_handle) \<times> filesystem" where
  "io_open fs p m b enc =
    (let h = \<lparr>file_path = p, file_mode = m, file_buffering = b, file_encoding = enc,
              file_exceptions = []\<rparr>;
         creating = (CHR ''w'' \<in> set m \<or> CHR ''a'' \<in> set m \<or> CHR ''x'' \<in> set m)
     in case fs p of
          None \<Rightarrow> if creating then (Inr h, fs(p \<mapsto> [])) else (Inl EnvironmentError, fs)
        | Some c \<Rightarrow>
            if CHR ''x'' \<in> set m then (Inl EnvironmentError, fs)
            else if CHR ''w'' \<in> set m then (Inr h, fs(p \<mapsto> []))
            else (Inr h, fs))"

definition open_file ::
  "filesystem \<Rightarrow> string \<Rightarrow> string \<Rightarrow> int \<Rightarrow> string option \<Rightarrow>
   (error + file_handle) \<times> filesystem" where
  "open_file fs p m b enc =
    (case io_open fs p m b enc of
       (Inl e, fs') \<Rightarrow> (Inl e, fs')
     | (Inr h, fs') \<Rightarrow> (Inr (h\<lparr>file_exceptions := [EnvironmentError]\<rparr>), fs'))"

record local_source =
  path :: string
  lmutable :: bool
  encoding :: "string option"

definition buffering_window :: int where
  "buffering_window = 32768"

text \<open>\<^verbatim>\<open>if self.encoding:\<close> holds for a non-empty string.\<close>

definition local_text_fileobj ::
  "local_source \<Rightarrow> bool \<Rightarrow> filesystem \<Rightarrow> (error + file_handle) \<times> filesystem" where
  "local_text_fileobj self writable fs =
    (if writable \<and> \<not> lmutable self then (Inl TypeError, fs)
     else
       let enc = (if encoding self \<noteq> None \<and> encoding self \<noteq> Some [] then encoding self
                  else None)
       in if writable then open_file fs (path self) ''r+'' buffering_window enc
          else open_file fs (path self) ''r'' buffering_window enc)"

definition local_bytes_fileobj ::
  "local_source \<Rightarrow> bool \<Rightarrow> filesystem \<Rightarrow> (error + file_handle) \<times> filesystem" where
  "local_bytes_fileobj self writable fs =
    (if writable then
       (if \<not> lmutable self then (Inl TypeError, fs)
        else open_file fs (path self) ''rb+'' buffering_window None)
     else open_file fs (path self) ''rb'' buffering_window None)"

section \<open>The transfer helper\<close>







section \<open>Scenarios of the test suite\<close>

text \<open>
  \<^verbatim>\<open>handle_f().read()\<close>: obtain a read-only handle and read all of it.
\<close>

definition read_text :: "source \<Rightarrow> error + payload" where
  "read_text self =
    (case text_fileobj self False of Inl e \<Rightarrow> Inl e | Inr h \<Rightarrow> fst (h_read (- 1) h))"

definition read_bytes :: "source \<Rightarrow> error + payload" where
  "read_bytes self =
    (case bytes_fileobj self False of Inl e \<Rightarrow> Inl e | Inr h \<Rightarrow> fst (h_read (- 1) h))"

text \<open>
  \<^verbatim>\<open>f = obj.text_fileobj(True); f.write(t); f.close()\<close>, then a fresh read-only text
  handle on the same object and \<^verbatim>\<open>read()\<close>.
\<close>

definition write_close_read :: "source \<Rightarrow> nat list \<Rightarrow> error + payload" where
  "write_close_read self t =
    (case text_fileobj self True of
       Inl e \<Rightarrow> Inl e
     | Inr f \<Rightarrow>
        (case h_write (Str t) f of
           (Inl e, f1) \<Rightarrow> Inl e
         | (Inr n, f1) \<Rightarrow>
            (case h_close f1 self of
               (Inl e, f2, self') \<Rightarrow> Inl e
             | (Inr u, f2, self') \<Rightarrow> read_text self')))"

section \<open>Round trip of the codec\<close>

text \<open>Text that encodes decodes to itself.\<close>

lemma u8: "n < 256 \<Longrightarrow> unat (byte_of n) = n"
  by (simp add: byte_of_def unat_of_nat)

lemma split2: "(q::nat) div 0x40 * 0x40 + q mod 0x40 = q"
  by simp

lemma alg3: "(a::nat) * 0x1000 + b * 0x40 + d = (a * 0x40 + b) * 0x40 + d"
  by simp

lemma alg4: "(a::nat) * 0x40000 + b * 0x1000 + e * 0x40 + d = (a * 0x1000 + b * 0x40 + e) * 0x40 + d"
  by simp

lemma split3: "(c::nat) div 0x1000 * 0x1000 + c div 0x40 mod 0x40 * 0x40 + c mod 0x40 = c"
proof -
  define q where "q = c div 0x40"
  have 3: "c div 0x1000 = q div 0x40" unfolding q_def by (simp add: div_mult2_eq[symmetric])
  have "q div 0x40 * 0x1000 + q mod 0x40 * 0x40 + c mod 0x40
        = (q div 0x40 * 0x40 + q mod 0x40) * 0x40 + c mod 0x40"
    by (rule alg3)
  also have "\<dots> = q * 0x40 + c mod 0x40" by (simp only: split2)
  also have "\<dots> = c" unfolding q_def by simp
  finally show ?thesis unfolding 3 q_def .
qed

lemma split4: "(c::nat) div 0x40000 * 0x40000 + c div 0x1000 mod 0x40 * 0x1000
    + c div 0x40 mod 0x40 * 0x40 + c mod 0x40 = c"
proof -
  define q where "q = c div 0x40"
  have 3: "c div 0x40000 = q div 0x1000" "c div 0x1000 = q div 0x40"
    unfolding q_def by (simp_all add: div_mult2_eq[symmetric])
  have "q div 0x1000 * 0x40000 + q div 0x40 mod 0x40 * 0x1000 + q mod 0x40 * 0x40 + c mod 0x40
        = (q div 0x1000 * 0x1000 + q div 0x40 mod 0x40 * 0x40 + q mod 0x40) * 0x40 + c mod 0x40"
    by (rule alg4)
  also have "\<dots> = q * 0x40 + c mod 0x40" by (simp only: split3)
  also have "\<dots> = c" unfolding q_def by simp
  finally show ?thesis unfolding 3 q_def .
qed

lemma dec1: "c < 0x80 \<Longrightarrow> bytes_decode (byte_of c # r) = prepend c (bytes_decode r)"
  by (simp add: u8)

lemma dec2: assumes "0x80 \<le> c" "c < 0x800"
  shows "bytes_decode (byte_of (0xC0 + c div 0x40) # byte_of (0x80 + c mod 0x40) # r) = prepend c (bytes_decode r)"
proof -
  define x where "x = 0xC0 + c div 0x40"
  define y where "y = 0x80 + c mod 0x40"
  have a: "x < 256" "y < 256" using assms unfolding x_def y_def by arith+
  have b: "0xC2 \<le> x" "x < 0xE0" "0x80 \<le> y" "y < 0xC0" using assms unfolding x_def y_def by arith+
  have c: "(x - 0xC0) * 0x40 + (y - 0x80) = c" unfolding x_def y_def by simp
  have "bytes_decode (byte_of x # byte_of y # r) = prepend c (bytes_decode r)"
    using a b c by (simp add: u8 is_cont_def cont_bits_def)
  then show ?thesis unfolding x_def y_def .
qed

lemma dec3: assumes "0x800 \<le> c" "c < 0x10000" "\<not> (0xD800 \<le> c \<and> c < 0xE000)"
  shows "bytes_decode (byte_of (0xE0 + c div 0x1000) # byte_of (0x80 + c div 0x40 mod 0x40)
            # byte_of (0x80 + c mod 0x40) # r) = prepend c (bytes_decode r)"
proof -
  define x where "x = 0xE0 + c div 0x1000"
  define y where "y = 0x80 + c div 0x40 mod 0x40"
  define z where "z = 0x80 + c mod 0x40"
  have a: "x < 256" "y < 256" "z < 256" using assms unfolding x_def y_def z_def by arith+
  have b: "0xE0 \<le> x" "x < 0xF0" "0x80 \<le> y" "y < 0xC0" "0x80 \<le> z" "z < 0xC0"
    using assms unfolding x_def y_def z_def by arith+
  have c: "(x - 0xE0) * 0x1000 + (y - 0x80) * 0x40 + (z - 0x80) = c"
    unfolding x_def y_def z_def using split3[of c] by simp
  have "bytes_decode (byte_of x # byte_of y # byte_of z # r) = prepend c (bytes_decode r)"
    using a b c assms by (simp add: u8 is_cont_def cont_bits_def)
  then show ?thesis unfolding x_def y_def z_def .
qed

lemma dec4: assumes "0x10000 \<le> c" "c < 0x110000"
  shows "bytes_decode (byte_of (0xF0 + c div 0x40000) # byte_of (0x80 + c div 0x1000 mod 0x40)
            # byte_of (0x80 + c div 0x40 mod 0x40) # byte_of (0x80 + c mod 0x40) # r)
         = prepend c (bytes_decode r)"
proof -
  define x where "x = 0xF0 + c div 0x40000"
  define y where "y = 0x80 + c div 0x1000 mod 0x40"
  define z where "z = 0x80 + c div 0x40 mod 0x40"
  define w where "w = 0x80 + c mod 0x40"
  have a: "x < 256" "y < 256" "z < 256" "w < 256"
    using assms unfolding x_def y_def z_def w_def by arith+
  have b: "0xF0 \<le> x" "x < 0xF5" "0x80 \<le> y" "y < 0xC0" "0x80 \<le> z" "z < 0xC0"
     "0x80 \<le> w" "w < 0xC0"
    using assms unfolding x_def y_def z_def w_def by arith+
  have c: "(x - 0xF0) * 0x40000 + (y - 0x80) * 0x1000 + (z - 0x80) * 0x40 + (w - 0x80) = c"
    unfolding x_def y_def z_def w_def using split4[of c] by simp
  have "bytes_decode (byte_of x # byte_of y # byte_of z # byte_of w # r) = prepend c (bytes_decode r)"
    using a b c assms by (simp add: u8 is_cont_def cont_bits_def)
  then show ?thesis unfolding x_def y_def z_def w_def .
qed

lemma decode_encode_char:
  assumes "encode_char c = Some bs"
  shows "bytes_decode (bs @ r) = prepend c (bytes_decode r)"
proof -
  consider "c < 0x80" | "0x80 \<le> c" "c < 0x800"
    | "0x800 \<le> c" "c < 0x10000" "\<not> (0xD800 \<le> c \<and> c < 0xE000)"
    | "0x10000 \<le> c" "c < 0x110000"
    using assms by (auto simp: encode_char_def split: if_splits)
  then show ?thesis
  proof cases
    case 1
    then have "bs = [byte_of c]" using assms by (simp add: encode_char_def)
    then show ?thesis by (simp only: append_Cons append_Nil dec1[OF 1])
  next
    case 2
    then have "bs = [byte_of (0xC0 + c div 0x40), byte_of (0x80 + c mod 0x40)]"
      using assms by (auto simp: encode_char_def split: if_splits)
    then show ?thesis by (simp only: append_Cons append_Nil dec2[OF 2])
  next
    case 3
    then have "bs = [byte_of (0xE0 + c div 0x1000), byte_of (0x80 + c div 0x40 mod 0x40),
                   byte_of (0x80 + c mod 0x40)]"
      using assms by (auto simp: encode_char_def split: if_splits)
    then show ?thesis by (simp only: append_Cons append_Nil dec3[OF 3])
  next
    case 4
    then have "bs = [byte_of (0xF0 + c div 0x40000), byte_of (0x80 + c div 0x1000 mod 0x40),
             byte_of (0x80 + c div 0x40 mod 0x40), byte_of (0x80 + c mod 0x40)]"
      using assms by (auto simp: encode_char_def split: if_splits)
    then show ?thesis by (simp only: append_Cons append_Nil dec4[OF 4])
  qed
qed

lemma decode_encode:
  "str_encode cs = Inr bs \<Longrightarrow> bytes_decode bs = Inr cs"
proof (induction cs arbitrary: bs)
  case Nil then show ?case by simp
next
  case (Cons c cs)
  then obtain b r where b: "encode_char c = Some b" and r: "str_encode cs = Inr r" and bs: "bs = b @ r"
    by (auto split: option.splits sum.splits)
  from Cons.IH[OF r] decode_encode_char[OF b, of r] bs show ?case by (simp add: prepend_def)
qed

text \<open>Bytes that decode encode to themselves: the decoder accepts shortest forms only.\<close>

lemma byte_of_unat: "byte_of (unat b) = b"
  by (simp add: byte_of_def)

lemma dm: "r < 0x40 \<Longrightarrow> (a * 0x40 + r) div 0x40 = (a::nat)" "r < 0x40 \<Longrightarrow> (a * 0x40 + r) mod 0x40 = r"
  by simp_all

lemma cont_bits_less: "is_cont b \<Longrightarrow> cont_bits b < 0x40"
  unfolding is_cont_def cont_bits_def by arith

lemma cont_bits_unat: "is_cont b \<Longrightarrow> 0x80 + cont_bits b = unat b"
  unfolding is_cont_def cont_bits_def by arith

lemma enc1: "unat b0 < 0x80 \<Longrightarrow> encode_char (unat b0) = Some [b0]"
  by (simp add: encode_char_def byte_of_unat)

lemma enc2:
  assumes "0xC2 \<le> unat b0" "unat b0 < 0xE0" "is_cont b1"
  shows "encode_char ((unat b0 - 0xC0) * 0x40 + cont_bits b1) = Some [b0, b1]"
proof -
  define a where "a = unat b0 - 0xC0"
  define r where "r = cont_bits b1"
  have r: "r < 0x40" using assms cont_bits_less unfolding r_def by simp
  have a: "2 \<le> a" "a < 0x20" using assms unfolding a_def by arith+
  have c: "0x80 \<le> a * 0x40 + r" "a * 0x40 + r < 0x800" using a r by arith+
  have x: "0xC0 + a = unat b0" using assms unfolding a_def by arith
  have y: "0x80 + r = unat b1" using assms cont_bits_unat unfolding r_def by simp
  have "encode_char (a * 0x40 + r) = Some [byte_of (0xC0 + a), byte_of (0x80 + r)]"
    using c r unfolding encode_char_def by simp
  then have "encode_char (a * 0x40 + r) = Some [b0, b1]"
    unfolding x y byte_of_unat .
  then show ?thesis unfolding a_def r_def .
qed

lemma enc3:
  assumes "0xE0 \<le> unat b0" "unat b0 < 0xF0" "is_cont b1" "is_cont b2"
    and "0x800 \<le> (unat b0 - 0xE0) * 0x1000 + cont_bits b1 * 0x40 + cont_bits b2"
    and "\<not> (0xD800 \<le> (unat b0 - 0xE0) * 0x1000 + cont_bits b1 * 0x40 + cont_bits b2
          \<and> (unat b0 - 0xE0) * 0x1000 + cont_bits b1 * 0x40 + cont_bits b2 < 0xE000)"
  shows "encode_char ((unat b0 - 0xE0) * 0x1000 + cont_bits b1 * 0x40 + cont_bits b2)
         = Some [b0, b1, b2]"
proof -
  define a where "a = unat b0 - 0xE0"
  define r1 where "r1 = cont_bits b1"
  define r2 where "r2 = cont_bits b2"
  define c where "c = a * 0x1000 + r1 * 0x40 + r2"
  have r: "r1 < 0x40" "r2 < 0x40" using assms cont_bits_less unfolding r1_def r2_def by simp_all
  have a: "a < 0x10" using assms unfolding a_def by arith
  have ceq: "c = (a * 0x40 + r1) * 0x40 + r2" unfolding c_def by simp
  have d1: "c div 0x40 = a * 0x40 + r1" unfolding ceq by (rule dm(1)[OF r(2)])
  have d2: "c mod 0x40 = r2" unfolding ceq by (rule dm(2)[OF r(2)])
  have d3: "c div 0x40 mod 0x40 = r1" unfolding d1 by (rule dm(2)[OF r(1)])
  have "c div 0x1000 = c div 0x40 div 0x40" by (simp add: div_mult2_eq[symmetric])
  then have d4: "c div 0x1000 = a" unfolding d1 using dm(1)[OF r(1), of a] by simp
  have lo: "0x800 \<le> c" "\<not> (0xD800 \<le> c \<and> c < 0xE000)"
    using assms(5,6) unfolding c_def a_def r1_def r2_def by simp_all
  have hi: "c < 0x10000" using a r unfolding c_def by arith
  have x: "0xE0 + a = unat b0" using assms unfolding a_def by arith
  have y: "0x80 + r1 = unat b1" "0x80 + r2 = unat b2"
    using assms cont_bits_unat unfolding r1_def r2_def by simp_all
  have "encode_char c = Some [byte_of (0xE0 + c div 0x1000), byte_of (0x80 + c div 0x40 mod 0x40),
                   byte_of (0x80 + c mod 0x40)]"
    using lo hi unfolding encode_char_def by auto
  then have "encode_char c = Some [b0, b1, b2]"
    unfolding d2 d3 d4 x y byte_of_unat .
  then show ?thesis unfolding c_def a_def r1_def r2_def .
qed

lemma enc4:
  assumes "0xF0 \<le> unat b0" "unat b0 < 0xF5" "is_cont b1" "is_cont b2" "is_cont b3"
    and "0x10000 \<le> (unat b0 - 0xF0) * 0x40000 + cont_bits b1 * 0x1000
                     + cont_bits b2 * 0x40 + cont_bits b3"
    and "(unat b0 - 0xF0) * 0x40000 + cont_bits b1 * 0x1000
                     + cont_bits b2 * 0x40 + cont_bits b3 < 0x110000"
  shows "encode_char ((unat b0 - 0xF0) * 0x40000 + cont_bits b1 * 0x1000
                     + cont_bits b2 * 0x40 + cont_bits b3) = Some [b0, b1, b2, b3]"
proof -
  define a where "a = unat b0 - 0xF0"
  define r1 where "r1 = cont_bits b1"
  define r2 where "r2 = cont_bits b2"
  define r3 where "r3 = cont_bits b3"
  define c where "c = a * 0x40000 + r1 * 0x1000 + r2 * 0x40 + r3"
  have r: "r1 < 0x40" "r2 < 0x40" "r3 < 0x40"
    using assms cont_bits_less unfolding r1_def r2_def r3_def by simp_all
  have ceq: "c = ((a * 0x40 + r1) * 0x40 + r2) * 0x40 + r3" unfolding c_def by simp
  have d1: "c div 0x40 = (a * 0x40 + r1) * 0x40 + r2" unfolding ceq by (rule dm(1)[OF r(3)])
  have d2: "c mod 0x40 = r3" unfolding ceq by (rule dm(2)[OF r(3)])
  have d3: "c div 0x40 mod 0x40 = r2" unfolding d1 by (rule dm(2)[OF r(2)])
  have "c div 0x1000 = c div 0x40 div 0x40" by (simp add: div_mult2_eq[symmetric])
  then have d4: "c div 0x1000 = a * 0x40 + r1" unfolding d1 using dm(1)[OF r(2), of "a * 0x40 + r1"] by simp
  have d5: "c div 0x1000 mod 0x40 = r1" unfolding d4 by (rule dm(2)[OF r(1)])
  have "c div 0x40000 = c div 0x1000 div 0x40" by (simp add: div_mult2_eq[symmetric])
  then have d6: "c div 0x40000 = a" unfolding d4 using dm(1)[OF r(1), of a] by simp
  have lo: "0x10000 \<le> c" "c < 0x110000"
    using assms(6,7) unfolding c_def a_def r1_def r2_def r3_def by simp_all
  have x: "0xF0 + a = unat b0" using assms unfolding a_def by arith
  have y: "0x80 + r1 = unat b1" "0x80 + r2 = unat b2" "0x80 + r3 = unat b3"
    using assms cont_bits_unat unfolding r1_def r2_def r3_def by simp_all
  have "encode_char c = Some [byte_of (0xF0 + c div 0x40000), byte_of (0x80 + c div 0x1000 mod 0x40),
             byte_of (0x80 + c div 0x40 mod 0x40), byte_of (0x80 + c mod 0x40)]"
    using lo unfolding encode_char_def by auto
  then have "encode_char c = Some [b0, b1, b2, b3]"
    unfolding d2 d3 d5 d6 x y byte_of_unat .
  then show ?thesis unfolding c_def a_def r1_def r2_def r3_def .
qed


lemma prepend_Inr: "prepend c r = Inr cs \<longleftrightarrow> (\<exists>cs'. r = Inr cs' \<and> cs = c # cs')"
  by (auto simp: prepend_def split: sum.splits)

lemma decode_cases:
  assumes "bytes_decode (b0 # bs) = Inr cs"
  obtains
    (one) cs' where "unat b0 < 0x80" "cs = unat b0 # cs'" "bytes_decode bs = Inr cs'"
  | (two) b1 r cs' where "bs = b1 # r" "0xC2 \<le> unat b0" "unat b0 < 0xE0" "is_cont b1"
      "cs = ((unat b0 - 0xC0) * 0x40 + cont_bits b1) # cs'" "bytes_decode r = Inr cs'"
  | (three) b1 b2 r cs' where "bs = b1 # b2 # r" "0xE0 \<le> unat b0" "unat b0 < 0xF0"
      "is_cont b1" "is_cont b2"
      "0x800 \<le> (unat b0 - 0xE0) * 0x1000 + cont_bits b1 * 0x40 + cont_bits b2"
      "\<not> (0xD800 \<le> (unat b0 - 0xE0) * 0x1000 + cont_bits b1 * 0x40 + cont_bits b2
          \<and> (unat b0 - 0xE0) * 0x1000 + cont_bits b1 * 0x40 + cont_bits b2 < 0xE000)"
      "cs = ((unat b0 - 0xE0) * 0x1000 + cont_bits b1 * 0x40 + cont_bits b2) # cs'"
      "bytes_decode r = Inr cs'"
  | (four) b1 b2 b3 r cs' where "bs = b1 # b2 # b3 # r" "0xF0 \<le> unat b0" "unat b0 < 0xF5"
      "is_cont b1" "is_cont b2" "is_cont b3"
      "0x10000 \<le> (unat b0 - 0xF0) * 0x40000 + cont_bits b1 * 0x1000
                     + cont_bits b2 * 0x40 + cont_bits b3"
      "(unat b0 - 0xF0) * 0x40000 + cont_bits b1 * 0x1000
                     + cont_bits b2 * 0x40 + cont_bits b3 < 0x110000"
      "cs = ((unat b0 - 0xF0) * 0x40000 + cont_bits b1 * 0x1000
                     + cont_bits b2 * 0x40 + cont_bits b3) # cs'"
      "bytes_decode r = Inr cs'"
proof -
  consider "unat b0 < 0x80" | "0x80 \<le> unat b0" "unat b0 < 0xC2"
    | "0xC2 \<le> unat b0" "unat b0 < 0xE0" | "0xE0 \<le> unat b0" "unat b0 < 0xF0"
    | "0xF0 \<le> unat b0" "unat b0 < 0xF5" | "0xF5 \<le> unat b0"
    by linarith
  then show thesis
  proof cases
    case 1
    with assms one show thesis by (auto simp: prepend_Inr)
  next
    case 2
    with assms show thesis by simp
  next
    case 3
    with assms two show thesis
      by (auto simp: prepend_Inr split: list.splits if_splits)
  next
    case 4
    with assms three show thesis
      by (auto simp: prepend_Inr Let_def split: list.splits if_splits)
  next
    case 5
    with assms four show thesis
      by (auto simp: prepend_Inr Let_def split: list.splits if_splits)
  next
    case 6
    with assms show thesis by simp
  qed
qed

lemma encode_decode: "bytes_decode bs = Inr cs \<Longrightarrow> str_encode cs = Inr bs"
proof (induction "length bs" arbitrary: bs cs rule: less_induct)
  case less
  show ?case
  proof (cases bs)
    case Nil
    with less.prems show ?thesis by simp
  next
    case (Cons b0 rest)
    from less.prems[unfolded Cons] show ?thesis
    proof (cases rule: decode_cases)
      case (one cs')
      have "str_encode cs' = Inr rest" using less.hyps[of rest cs'] one Cons by simp
      then show ?thesis using one enc1[of b0] Cons by simp
    next
      case (two b1 r cs')
      have "str_encode cs' = Inr r" using less.hyps[of r cs'] two Cons by simp
      then show ?thesis using two enc2[of b0 b1] Cons by simp
    next
      case (three b1 b2 r cs')
      have "str_encode cs' = Inr r" using less.hyps[of r cs'] three Cons by simp
      then show ?thesis using three(1,8) enc3[OF three(2-7)] Cons by simp
    next
      case (four b1 b2 b3 r cs')
      have "str_encode cs' = Inr r" using less.hyps[of r cs'] four Cons by simp
      then show ?thesis using four(1,9) enc4[OF four(2-8)] Cons by simp
    qed
  qed
qed

section \<open>Literals of the test suite\<close>

lemma cp_dar: "codepoints ''dar'' = [100, 97, 114]"
  by (simp add: codepoints_def)

lemma cp_foonani: "codepoints ''foonani'' = [102, 111, 111, 110, 97, 110, 105]"
  by (simp add: codepoints_def)

lemma cp_darnani: "codepoints ''darnani'' = [100, 97, 114, 110, 97, 110, 105]"
  by (simp add: codepoints_def)

section \<open>Immutable sources\<close>

text \<open>
  C1: a source built with \<^verbatim>\<open>mutable=False\<close>, in memory or on disk, answers
  \<^verbatim>\<open>text_fileobj(writable=True)\<close> and \<^verbatim>\<open>bytes_fileobj(writable=True)\<close> with \<^verbatim>\<open>TypeError\<close>.
  The answer depends neither on the stored content (no conversion runs, also where one
  would raise) nor on the file system (no file is opened, also where the path is missing),
  and the file system is returned as it was. The in-memory methods return no new source:
  they assign nothing to \<^verbatim>\<open>self\<close>.
\<close>

theorem immutable_refuses_writable:
  assumes "\<not> mutable src" and "\<not> lmutable ls"
  shows "text_fileobj src True = Inl TypeError
       \<and> bytes_fileobj src True = Inl TypeError
       \<and> local_text_fileobj ls True fs = (Inl TypeError, fs)
       \<and> local_bytes_fileobj ls True fs = (Inl TypeError, fs)"
  using assms
  by (simp add: text_fileobj_def bytes_fileobj_def local_text_fileobj_def
      local_bytes_fileobj_def)

theorem immutable_refuses_writable_witness:
  "\<not> mutable (data_source Other False)
   \<and> \<not> lmutable \<lparr>path = ''/missing'', lmutable = False, encoding = None\<rparr>
   \<and> text_fileobj (data_source Other False) True = Inl TypeError
   \<and> bytes_fileobj (data_source Other False) True = Inl TypeError
   \<and> local_text_fileobj \<lparr>path = ''/missing'', lmutable = False, encoding = None\<rparr>
        True Map.empty = (Inl TypeError, Map.empty)
   \<and> local_bytes_fileobj \<lparr>path = ''/missing'', lmutable = False, encoding = None\<rparr>
        True Map.empty = (Inl TypeError, Map.empty)"
  using immutable_refuses_writable
    [of "data_source Other False" "\<lparr>path = ''/missing'', lmutable = False, encoding = None\<rparr>"
        Map.empty]
  by (simp add: data_source_def)

section \<open>The overwrite scenario\<close>

text \<open>
  C2: on \<^verbatim>\<open>data_source("foonani", mutable=True)\<close>, opening a writable text handle, writing
  \<^verbatim>\<open>"dar"\<close> and closing it, then reading a fresh read-only text handle, gives
  \<^verbatim>\<open>"darnani"\<close>: the handle starts with the whole content at position 0 and the write
  replaces the first three characters only.
\<close>

theorem foonani_dar_darnani:
  "write_close_read (data_source (Str (codepoints ''foonani'')) True) (codepoints ''dar'')
   = Inr (Str (codepoints ''darnani''))"
  by (simp add: write_close_read_def read_text_def text_fileobj_def data_source_def
      convert_data_def text_wr_StringIO_def text_ro_StringIO_def h_write_def h_close_def
      h_read_def kls_close_def text_flush_def s_init_def s_write_def s_seek_def s_read_def
      s_close_def overwrite_def bound_reset_data_def reset_data_def Let_def
      cp_dar cp_foonani cp_darnani)

section \<open>Type-checked constructors\<close>

text \<open>
  C8: \<^verbatim>\<open>text_data_source\<close> raises \<^verbatim>\<open>TypeError\<close> at construction for content that is not
  \<^verbatim>\<open>str\<close> and \<^verbatim>\<open>bytes_data_source\<close> for content that is not \<^verbatim>\<open>bytes\<close>; with content
  of the right type each stores it unchanged, with the mutable flag as given.
\<close>

theorem typed_sources_check_content:
  "text_data_source (Str cs) m = Inr \<lparr>cls = Text_data_source, data = Str cs, mutable = m\<rparr>
   \<and> text_data_source (Bytes bs) m = Inl TypeError
   \<and> text_data_source Other m = Inl TypeError
   \<and> bytes_data_source (Bytes bs) m = Inr \<lparr>cls = Bytes_data_source, data = Bytes bs, mutable = m\<rparr>
   \<and> bytes_data_source (Str cs) m = Inl TypeError
   \<and> bytes_data_source Other m = Inl TypeError"
  by (simp add: text_data_source_def bytes_data_source_def data_source_def)

section \<open>Declared exceptions\<close>

lemma text_fileobj_exceptions:
  "text_fileobj src wr = Inr h \<Longrightarrow>
     exceptions h = (if wr then [MemoryError] else [MemoryError, TypeError])"
  by (auto simp: text_fileobj_def text_wr_StringIO_def text_ro_StringIO_def
      split: if_splits sum.splits payload.splits)

lemma bytes_fileobj_exceptions:
  "bytes_fileobj src wr = Inr h \<Longrightarrow>
     exceptions h = (if wr then [MemoryError] else [MemoryError, TypeError])"
  by (auto simp: bytes_fileobj_def bytes_wr_StringIO_def bytes_ro_StringIO_def
      split: if_splits sum.splits payload.splits)

lemma open_file_exceptions:
  "open_file fs p m b enc = (Inr fh, fs') \<Longrightarrow> file_exceptions fh = [EnvironmentError]"
  by (auto simp: open_file_def split: prod.splits sum.splits)

lemma local_fileobj_exceptions:
  "local_text_fileobj ls wr fs = (Inr fh, fs') \<Longrightarrow> file_exceptions fh = [EnvironmentError]"
  "local_bytes_fileobj ls wr fs = (Inr fh, fs') \<Longrightarrow> file_exceptions fh = [EnvironmentError]"
  by (auto simp: local_text_fileobj_def local_bytes_fileobj_def Let_def
      dest: open_file_exceptions split: if_splits)

lemma ro_write_refused:
  "text_fileobj src False = Inr h \<Longrightarrow> h_write d h = (Inl TypeError, h)"
  "bytes_fileobj src False = Inr h \<Longrightarrow> h_write d h = (Inl TypeError, h)"
  by (auto simp: text_fileobj_def bytes_fileobj_def text_ro_StringIO_def bytes_ro_StringIO_def
      h_write_def split: sum.splits payload.splits)

lemma exceptions_by_class:
  "exceptions h = (if readonly h then [MemoryError, TypeError] else [MemoryError])"
  by (cases h) simp_all

text \<open>
  C9: every handle that \<^verbatim>\<open>text_fileobj\<close> or \<^verbatim>\<open>bytes_fileobj\<close> returns, of whatever
  source and content, declares its exceptions: a writable in-memory handle \<^verbatim>\<open>(MemoryError,)\<close>,
  a read-only in-memory handle \<^verbatim>\<open>(MemoryError, TypeError)\<close>, a handle of a disk source
  \<^verbatim>\<open>(EnvironmentError,)\<close>. The declaration depends on the class of the handle only (last
  conjunct). A write to a read-only in-memory handle raises \<^verbatim>\<open>TypeError\<close>, which is in the
  set that handle declares. Each part holds for its own source and handle.
\<close>

theorem handles_declare_exceptions:
  "(text_fileobj s1 True = Inr tw \<longrightarrow> exceptions tw = [MemoryError])
   \<and> (bytes_fileobj s2 True = Inr bw \<longrightarrow> exceptions bw = [MemoryError])
   \<and> (text_fileobj s3 False = Inr tr \<longrightarrow>
         exceptions tr = [MemoryError, TypeError]
       \<and> fst (h_write d3 tr) = Inl TypeError \<and> TypeError \<in> set (exceptions tr))
   \<and> (bytes_fileobj s4 False = Inr br \<longrightarrow>
         exceptions br = [MemoryError, TypeError]
       \<and> fst (h_write d4 br) = Inl TypeError \<and> TypeError \<in> set (exceptions br))
   \<and> (local_text_fileobj l5 w5 fs5 = (Inr tf, fs5') \<longrightarrow>
         file_exceptions tf = [EnvironmentError])
   \<and> (local_bytes_fileobj l6 w6 fs6 = (Inr bf, fs6') \<longrightarrow>
         file_exceptions bf = [EnvironmentError])
   \<and> exceptions h = (if readonly h then [MemoryError, TypeError] else [MemoryError])"
  using text_fileobj_exceptions[of s1 True tw] bytes_fileobj_exceptions[of s2 True bw]
    text_fileobj_exceptions[of s3 False tr] bytes_fileobj_exceptions[of s4 False br]
    local_fileobj_exceptions(1)[of l5 w5 fs5 tf fs5']
    local_fileobj_exceptions(2)[of l6 w6 fs6 bf fs6']
    ro_write_refused(1)[of s3 tr d3] ro_write_refused(2)[of s4 br d4]
    exceptions_by_class[of h]
  by simp


theorem handles_declare_exceptions_witness:
  "text_fileobj (data_source (Str [102]) True) True
     = Inr (Text_wr_StringIO \<lparr>base = \<lparr>buf = [102], pos = 0, closed = False\<rparr>,
                              callback = Some bound_reset_data\<rparr>)
   \<and> bytes_fileobj (data_source (Bytes [255]) True) True
     = Inr (Bytes_wr_StringIO \<lparr>base = \<lparr>buf = [255], pos = 0, closed = False\<rparr>,
                               callback = Some bound_reset_data\<rparr>)
   \<and> text_fileobj (data_source (Bytes [102]) False) False
     = Inr (Text_ro_StringIO \<lparr>buf = [102], pos = 0, closed = False\<rparr>)
   \<and> bytes_fileobj (data_source (Bytes [255]) False) False
     = Inr (Bytes_ro_StringIO \<lparr>buf = [255], pos = 0, closed = False\<rparr>)
   \<and> local_text_fileobj \<lparr>path = ''/f'', lmutable = False, encoding = Some ''utf8''\<rparr> False
        [''/f'' \<mapsto> [102]]
     = (Inr \<lparr>file_path = ''/f'', file_mode = ''r'', file_buffering = 32768,
             file_encoding = Some ''utf8'', file_exceptions = [EnvironmentError]\<rparr>,
        [''/f'' \<mapsto> [102]])
   \<and> local_bytes_fileobj \<lparr>path = ''/f'', lmutable = False, encoding = Some ''utf8''\<rparr> False
        [''/f'' \<mapsto> [102]]
     = (Inr \<lparr>file_path = ''/f'', file_mode = ''rb'', file_buffering = 32768,
             file_encoding = None, file_exceptions = [EnvironmentError]\<rparr>,
        [''/f'' \<mapsto> [102]])
   \<and> exceptions (Text_wr_StringIO \<lparr>base = \<lparr>buf = [102], pos = 0, closed = False\<rparr>,
                              callback = Some bound_reset_data\<rparr> :: source handle) = [MemoryError]
   \<and> exceptions (Bytes_wr_StringIO \<lparr>base = \<lparr>buf = [255], pos = 0, closed = False\<rparr>,
                               callback = Some bound_reset_data\<rparr> :: source handle) = [MemoryError]
   \<and> exceptions (Text_ro_StringIO \<lparr>buf = [102], pos = 0, closed = False\<rparr> :: source handle)
     = [MemoryError, TypeError]
   \<and> fst (h_write (Str [120]) (Text_ro_StringIO \<lparr>buf = [102], pos = 0, closed = False\<rparr> :: source handle))
     = Inl TypeError
   \<and> exceptions (Bytes_ro_StringIO \<lparr>buf = [255], pos = 0, closed = False\<rparr> :: source handle)
     = [MemoryError, TypeError]
   \<and> fst (h_write (Bytes [120]) (Bytes_ro_StringIO \<lparr>buf = [255], pos = 0, closed = False\<rparr> :: source handle))
     = Inl TypeError
   \<and> file_exceptions \<lparr>file_path = ''/f'', file_mode = ''r'', file_buffering = 32768,
             file_encoding = Some ''utf8'', file_exceptions = [EnvironmentError]\<rparr>
     = [EnvironmentError]
   \<and> file_exceptions \<lparr>file_path = ''/f'', file_mode = ''rb'', file_buffering = 32768,
             file_encoding = None, file_exceptions = [EnvironmentError]\<rparr>
     = [EnvironmentError]"
proof -
  have 1: "text_fileobj (data_source (Str [102]) True) True
     = Inr (Text_wr_StringIO \<lparr>base = \<lparr>buf = [102], pos = 0, closed = False\<rparr>,
                              callback = Some bound_reset_data\<rparr>)"
    by (simp add: text_fileobj_def data_source_def convert_data_def text_wr_StringIO_def
        s_init_def)
  have 2: "bytes_fileobj (data_source (Bytes [255]) True) True
     = Inr (Bytes_wr_StringIO \<lparr>base = \<lparr>buf = [255], pos = 0, closed = False\<rparr>,
                               callback = Some bound_reset_data\<rparr>)"
    by (simp add: bytes_fileobj_def data_source_def convert_data_def bytes_wr_StringIO_def
        s_init_def)
  have 3: "text_fileobj (data_source (Bytes [102]) False) False
     = Inr (Text_ro_StringIO \<lparr>buf = [102], pos = 0, closed = False\<rparr>)"
    by (simp add: text_fileobj_def data_source_def convert_data_def text_ro_StringIO_def
        s_init_def prepend_def)
  have 4: "bytes_fileobj (data_source (Bytes [255]) False) False
     = Inr (Bytes_ro_StringIO \<lparr>buf = [255], pos = 0, closed = False\<rparr>)"
    by (simp add: bytes_fileobj_def data_source_def convert_data_def bytes_ro_StringIO_def
        s_init_def)
  have 5: "local_text_fileobj \<lparr>path = ''/f'', lmutable = False, encoding = Some ''utf8''\<rparr> False
        [''/f'' \<mapsto> [102]]
     = (Inr \<lparr>file_path = ''/f'', file_mode = ''r'', file_buffering = 32768,
             file_encoding = Some ''utf8'', file_exceptions = [EnvironmentError]\<rparr>,
        [''/f'' \<mapsto> [102]])"
    by (simp add: local_text_fileobj_def open_file_def io_open_def buffering_window_def)
  have 6: "local_bytes_fileobj \<lparr>path = ''/f'', lmutable = False, encoding = Some ''utf8''\<rparr> False
        [''/f'' \<mapsto> [102]]
     = (Inr \<lparr>file_path = ''/f'', file_mode = ''rb'', file_buffering = 32768,
             file_encoding = None, file_exceptions = [EnvironmentError]\<rparr>,
        [''/f'' \<mapsto> [102]])"
    by (simp add: local_bytes_fileobj_def open_file_def io_open_def buffering_window_def)
  from handles_declare_exceptions
    [of "data_source (Str [102]) True" "Text_wr_StringIO \<lparr>base = \<lparr>buf = [102], pos = 0, closed = False\<rparr>,
                              callback = Some bound_reset_data\<rparr>"
        "data_source (Bytes [255]) True" "Bytes_wr_StringIO \<lparr>base = \<lparr>buf = [255], pos = 0, closed = False\<rparr>,
                               callback = Some bound_reset_data\<rparr>"
        "data_source (Bytes [102]) False" "Text_ro_StringIO \<lparr>buf = [102], pos = 0, closed = False\<rparr>"
        "Str [120]"
        "data_source (Bytes [255]) False" "Bytes_ro_StringIO \<lparr>buf = [255], pos = 0, closed = False\<rparr>"
        "Bytes [120]"
        "\<lparr>path = ''/f'', lmutable = False, encoding = Some ''utf8''\<rparr>" False "[''/f'' \<mapsto> [102]]"
        "\<lparr>file_path = ''/f'', file_mode = ''r'', file_buffering = 32768,
             file_encoding = Some ''utf8'', file_exceptions = [EnvironmentError]\<rparr>"
        "[''/f'' \<mapsto> [102]]"
        "\<lparr>path = ''/f'', lmutable = False, encoding = Some ''utf8''\<rparr>" False "[''/f'' \<mapsto> [102]]"
        "\<lparr>file_path = ''/f'', file_mode = ''rb'', file_buffering = 32768,
             file_encoding = None, file_exceptions = [EnvironmentError]\<rparr>"
        "[''/f'' \<mapsto> [102]]"
        "Text_wr_StringIO \<lparr>base = \<lparr>buf = [102], pos = 0, closed = False\<rparr>,
                              callback = Some bound_reset_data\<rparr>"]
    1 2 3 4 5 6
  show ?thesis by simp
qed

section \<open>Writable handles of a disk source\<close>

lemma open_rplus:
  "CHR ''w'' \<notin> set m \<Longrightarrow> CHR ''a'' \<notin> set m \<Longrightarrow> CHR ''x'' \<notin> set m \<Longrightarrow>
   open_file fs p m b enc =
     (case fs p of
        None \<Rightarrow> (Inl EnvironmentError, fs)
      | Some c \<Rightarrow> (Inr \<lparr>file_path = p, file_mode = m, file_buffering = b, file_encoding = enc,
                        file_exceptions = [EnvironmentError]\<rparr>, fs))"
  by (simp add: open_file_def io_open_def Let_def split: option.splits)

text \<open>
  C10: on a \<^verbatim>\<open>local_source\<close> with \<^verbatim>\<open>mutable=True\<close>, a writable handle is opened with
  mode \<^verbatim>\<open>r+\<close> (text) or \<^verbatim>\<open>rb+\<close> (bytes). The open neither creates nor truncates: the
  file system after the call is the one before it; a missing path gives
  \<^verbatim>\<open>EnvironmentError\<close>, an existing one a handle on that path.
\<close>

theorem writable_local_opens_existing:
  assumes "lmutable ls"
  shows "snd (local_text_fileobj ls True fs) = fs
       \<and> snd (local_bytes_fileobj ls True fs) = fs
       \<and> (fs (path ls) = None \<longrightarrow>
            fst (local_text_fileobj ls True fs) = Inl EnvironmentError
          \<and> fst (local_bytes_fileobj ls True fs) = Inl EnvironmentError)
       \<and> (fs (path ls) \<noteq> None \<longrightarrow>
            (\<exists>h. fst (local_text_fileobj ls True fs) = Inr h \<and> file_mode h = ''r+''
                  \<and> file_path h = path ls)
          \<and> (\<exists>h. fst (local_bytes_fileobj ls True fs) = Inr h \<and> file_mode h = ''rb+''
                  \<and> file_path h = path ls))"
  using assms
  by (auto simp: local_text_fileobj_def local_bytes_fileobj_def open_rplus Let_def
      split: option.splits)

theorem writable_local_opens_existing_witness:
  "lmutable \<lparr>path = ''/f'', lmutable = True, encoding = None\<rparr>
   \<and> Map.empty (path \<lparr>path = ''/f'', lmutable = True, encoding = None\<rparr>) = None
   \<and> [''/f'' \<mapsto> [102::byte]] (path \<lparr>path = ''/f'', lmutable = True, encoding = None\<rparr>) \<noteq> None
   \<and> local_text_fileobj \<lparr>path = ''/f'', lmutable = True, encoding = None\<rparr> True Map.empty
       = (Inl EnvironmentError, Map.empty)
   \<and> local_bytes_fileobj \<lparr>path = ''/f'', lmutable = True, encoding = None\<rparr> True Map.empty
       = (Inl EnvironmentError, Map.empty)
   \<and> snd (local_text_fileobj \<lparr>path = ''/f'', lmutable = True, encoding = None\<rparr> True
            [''/f'' \<mapsto> [102]]) = [''/f'' \<mapsto> [102]]
   \<and> snd (local_bytes_fileobj \<lparr>path = ''/f'', lmutable = True, encoding = None\<rparr> True
            [''/f'' \<mapsto> [102]]) = [''/f'' \<mapsto> [102]]
   \<and> (\<exists>h. fst (local_text_fileobj \<lparr>path = ''/f'', lmutable = True, encoding = None\<rparr> True
            [''/f'' \<mapsto> [102]]) = Inr h \<and> file_mode h = ''r+'')
   \<and> (\<exists>h. fst (local_bytes_fileobj \<lparr>path = ''/f'', lmutable = True, encoding = None\<rparr> True
            [''/f'' \<mapsto> [102]]) = Inr h \<and> file_mode h = ''rb+'')"
  using writable_local_opens_existing
      [of "\<lparr>path = ''/f'', lmutable = True, encoding = None\<rparr>" Map.empty]
    writable_local_opens_existing
      [of "\<lparr>path = ''/f'', lmutable = True, encoding = None\<rparr>" "[''/f'' \<mapsto> [102]]"]
  by (auto simp: prod_eq_iff)


section \<open>Reading a source through both kinds of handle\<close>

lemma read_all_init:
  "s_read (- 1) (s_init d) = (Inr d, \<lparr>buf = d, pos = length d, closed = False\<rparr>)"
  by (simp add: s_read_def s_init_def)

lemma read_text_eq:
  "read_text src = (case convert_data src ''text'' of
      Inl e \<Rightarrow> Inl e | Inr (Str cs) \<Rightarrow> Inr (Str cs) | Inr p \<Rightarrow> Inl TypeError)"
  by (simp add: read_text_def text_fileobj_def text_ro_StringIO_def h_read_def read_all_init
      split: sum.splits payload.splits)

lemma read_bytes_eq:
  "read_bytes src = (case convert_data src ''bytes'' of
      Inl e \<Rightarrow> Inl e | Inr (Bytes bs) \<Rightarrow> Inr (Bytes bs) | Inr p \<Rightarrow> Inl TypeError)"
  by (simp add: read_bytes_def bytes_fileobj_def bytes_ro_StringIO_def h_read_def read_all_init
      split: sum.splits payload.splits)

text \<open>
  C5: for a source built from text \<open>T\<close> (by \<^verbatim>\<open>data_source\<close> or \<^verbatim>\<open>text_data_source\<close>), a
  read-only text handle reads \<open>T\<close> and a read-only bytes handle reads the default encoding
  of \<open>T\<close> (and raises as the encoder does where \<open>T\<close> has no encoding). The conversions
  lose nothing: when \<open>T\<close> encodes to \<open>B\<close>, a source built from \<open>B\<close> reads as \<open>T\<close> through a
  text handle, and whenever bytes \<open>B'\<close> decode to \<open>T\<close>, the bytes handle on \<open>T\<close> reads
  exactly \<open>B'\<close>.
\<close>

theorem text_source_round_trip:
  assumes "src = data_source (Str T) m \<or> text_data_source (Str T) m = Inr src"
  shows "read_text src = Inr (Str T)
       \<and> read_bytes src = map_sum id Bytes (str_encode T)
       \<and> (str_encode T = Inr B \<longrightarrow>
            read_bytes src = Inr (Bytes B)
          \<and> read_text (data_source (Bytes B) m') = Inr (Str T)
          \<and> (\<forall>src'. bytes_data_source (Bytes B) m' = Inr src' \<longrightarrow> read_text src' = Inr (Str T)))
       \<and> (bytes_decode B' = Inr T \<longrightarrow> read_bytes src = Inr (Bytes B'))"
proof -
  have c: "cls src \<noteq> Bytes_data_source" "data src = Str T"
    using assms by (auto simp: data_source_def text_data_source_def)
  have t: "read_text src = Inr (Str T)"
    using c by (cases "cls src") (simp_all add: read_text_eq convert_data_def)
  have b: "read_bytes src = map_sum id Bytes (str_encode T)"
    using c by (cases "cls src"; cases "str_encode T") (simp_all add: read_bytes_eq convert_data_def)
  have r: "read_text (data_source (Bytes B) m') = Inr (Str T)"
    "\<forall>src'. bytes_data_source (Bytes B) m' = Inr src' \<longrightarrow> read_text src' = Inr (Str T)"
    if "str_encode T = Inr B"
    using decode_encode[OF that]
    by (auto simp: read_text_eq convert_data_def data_source_def bytes_data_source_def)
  show ?thesis using t b r encode_decode[of B' T] by auto
qed


theorem text_source_round_trip_witness:
  "str_encode [233, 8364] = Inr [195, 169, 226, 130, 172]
   \<and> bytes_decode [195, 169, 226, 130, 172] = Inr [233, 8364]
   \<and> bytes_data_source (Bytes [195, 169, 226, 130, 172]) False
       = Inr \<lparr>cls = Bytes_data_source, data = Bytes [195, 169, 226, 130, 172], mutable = False\<rparr>
   \<and> read_text (data_source (Str [233, 8364]) False) = Inr (Str [233, 8364])
   \<and> read_bytes (data_source (Str [233, 8364]) False) = Inr (Bytes [195, 169, 226, 130, 172])
   \<and> read_text (data_source (Bytes [195, 169, 226, 130, 172]) False) = Inr (Str [233, 8364])
   \<and> read_text \<lparr>cls = Bytes_data_source, data = Bytes [195, 169, 226, 130, 172], mutable = False\<rparr>
       = Inr (Str [233, 8364])"
proof -
  have e: "str_encode [233, 8364] = Inr [195, 169, 226, 130, 172]"
    by (simp add: encode_char_def byte_of_def)
  have d: "bytes_decode [195, 169, 226, 130, 172] = Inr [233, 8364]"
    by (rule decode_encode[OF e])
  have s: "bytes_data_source (Bytes [195, 169, 226, 130, 172]) False
       = Inr \<lparr>cls = Bytes_data_source, data = Bytes [195, 169, 226, 130, 172], mutable = False\<rparr>"
    by (simp add: bytes_data_source_def data_source_def)
  from text_source_round_trip
    [of "data_source (Str [233, 8364]) False" "[233, 8364]" False
        "[195, 169, 226, 130, 172]" False "[195, 169, 226, 130, 172]"] e d s
  show ?thesis by simp
qed


section \<open>Write, close, read\<close>

text \<open>
  A close of an open writable handle whose callback is set hands the callback the whole
  buffer, wherever the position was, and ends in one of two ways.
\<close>

lemma kls_close_open:
  assumes "\<not> closed (base k)" and "callback k = Some f"
    and "flush (base k) = (Inr (), base k)"
  shows "kls_close flush wrap k w =
    (case f (wrap (buf (base k))) w of
       (Inl e, w') \<Rightarrow> (Inl e, k\<lparr>base := (base k)\<lparr>pos := length (buf (base k))\<rparr>\<rparr>, w')
     | (Inr u, w') \<Rightarrow>
         (Inr (), k\<lparr>base := (base k)\<lparr>pos := length (buf (base k)), closed := True\<rparr>,
                    callback := None\<rparr>, w'))"
  using assms
  by (simp add: kls_close_def s_seek_def s_read_def s_close_def Let_def
      split: prod.splits sum.splits)

lemma text_flush_id: "text_flush s = (Inr (), s)"
  by (simp add: text_flush_def)

lemma bytes_flush_open: "\<not> closed s \<Longrightarrow> bytes_flush s = (Inr (), s)"
  by (simp add: bytes_flush_def)

lemma overwrite_start: "overwrite b 0 d = d @ drop (length d) b"
  by (simp add: overwrite_def)

lemma write_at_start:
  "s_write d (s_init b) = (Inr (length d), \<lparr>buf = d @ drop (length d) b, pos = length d, closed = False\<rparr>)"
  by (simp add: s_write_def s_init_def overwrite_start)

lemma write_close_read_eq:
  assumes "mutable src" and "convert_data src ''text'' = Inr (Str old)"
  shows "write_close_read src t =
    (case reset_data src (Str (t @ drop (length t) old)) of
       Inl e \<Rightarrow> Inl e | Inr src' \<Rightarrow> read_text src')"
  using assms
  by (simp add: write_close_read_def text_fileobj_def text_wr_StringIO_def h_write_def
      write_at_start h_close_def kls_close_open text_flush_id bound_reset_data_def
      split: sum.splits)


text \<open>
  C4, as stated, says that writing \<open>T\<close> to a writable text handle of a mutable source,
  closing it and reading a fresh read-only text handle gives exactly \<open>T\<close>. The handle
  starts with the source's text and the write replaces its first characters only, as the test
  suite expects (\<^verbatim>\<open>"dar"\<close> on \<^verbatim>\<open>"foonani"\<close> reads \<^verbatim>\<open>"darnani"\<close>): the claim fails there.
\<close>

theorem write_close_read_counterexample:
  "mutable (data_source (Str (codepoints ''foonani'')) True)
   \<and> write_close_read (data_source (Str (codepoints ''foonani'')) True) (codepoints ''dar'')
       \<noteq> Inr (Str (codepoints ''dar''))"
proof -
  have m: "mutable (data_source (Str (codepoints ''foonani'')) True)"
    and c: "convert_data (data_source (Str (codepoints ''foonani'')) True) ''text''
            = Inr (Str (codepoints ''foonani''))"
    by (simp_all add: data_source_def convert_data_def)
  show ?thesis
    using write_close_read_eq[OF m c, of "codepoints ''dar''"]
    by (simp add: reset_data_def read_text_eq convert_data_def data_source_def
        cp_dar cp_foonani)
qed

text \<open>
  C4, amended: where the source's content reads as the text \<open>old\<close>, the read gives \<open>T\<close>
  followed by what \<open>old\<close> holds beyond its first \<open>length T\<close> characters; it gives exactly
  \<open>T\<close> when \<open>old\<close> is no longer than \<open>T\<close>. A source that stores bytes has to encode the
  new text at the close.
\<close>

theorem write_close_read_overwrites:
  assumes "mutable src" and "convert_data src ''text'' = Inr (Str old)"
    and "is_bytes (data src) \<longrightarrow> (\<exists>bs. str_encode (t @ drop (length t) old) = Inr bs)"
  shows "write_close_read src t = Inr (Str (t @ drop (length t) old))
       \<and> (length old \<le> length t \<longrightarrow> write_close_read src t = Inr (Str t))"
proof -
  let ?x = "t @ drop (length t) old"
  have "write_close_read src t = Inr (Str ?x)"
  proof (cases "data src")
    case (Str cs)
    then have "cls src \<noteq> Bytes_data_source"
      using assms(2) by (auto simp: convert_data_def)
    then show ?thesis
      using Str by (cases "cls src")
        (simp_all add: write_close_read_eq[OF assms(1,2)] reset_data_def read_text_eq
          convert_data_def)
  next
    case (Bytes b)
    then obtain bs where e: "str_encode ?x = Inr bs" using assms(3) by auto
    have "cls src \<noteq> Text_data_source"
      using assms(2) Bytes by (auto simp: convert_data_def)
    then show ?thesis
      using Bytes e decode_encode[OF e] by (cases "cls src")
        (simp_all add: write_close_read_eq[OF assms(1,2)] reset_data_def read_text_eq
          convert_data_def)
  next
    case Other
    then show ?thesis
      using assms(2) by (cases "cls src") (simp_all add: convert_data_def)
  qed
  then show ?thesis by simp
qed

theorem write_close_read_overwrites_witness:
  "mutable (data_source (Bytes [102, 111]) True)
   \<and> convert_data (data_source (Bytes [102, 111]) True) ''text'' = Inr (Str [102, 111])
   \<and> is_bytes (data (data_source (Bytes [102, 111]) True))
   \<and> str_encode ([233, 100, 97] @ drop (length [233, 100, 97 :: nat]) [102, 111])
       = Inr [195, 169, 100, 97]
   \<and> length [102, 111 :: nat] \<le> length [233, 100, 97 :: nat]
   \<and> write_close_read (data_source (Bytes [102, 111]) True) [233, 100, 97]
       = Inr (Str [233, 100, 97])"
proof -
  have m: "mutable (data_source (Bytes [102, 111]) True)"
    and b: "is_bytes (data (data_source (Bytes [102, 111]) True))"
    by (simp_all add: data_source_def)
  have c: "convert_data (data_source (Bytes [102, 111]) True) ''text'' = Inr (Str [102, 111])"
    by (simp add: data_source_def convert_data_def prepend_def)
  have e: "str_encode ([233, 100, 97] @ drop (length [233, 100, 97 :: nat]) [102, 111])
       = Inr [195, 169, 100, 97]"
    by (simp add: encode_char_def byte_of_def)
  then have e': "is_bytes (data (data_source (Bytes [102, 111]) True)) \<longrightarrow>
      (\<exists>bs. str_encode ([233, 100, 97] @ drop (length [233, 100, 97 :: nat]) [102, 111]) = Inr bs)"
    by blast
  from write_close_read_overwrites[OF m c e'] m b c e show ?thesis by simp
qed


section \<open>What changes the stored content\<close>

text \<open>
  Obtaining a handle runs \<^verbatim>\<open>_convert_data\<close>, which returns the converted value and assigns
  nothing; the handle holds its own buffer. Of the calls on a handle, only a close is given
  the source.
\<close>

lemma step_keeps_world:
  assumes "c \<noteq> Close \<or> readonly h"
  shows "snd (step c (h, w)) = w"
  using assms by (cases c; cases h) (simp_all add: h_close_def)

lemma step_keeps_readonly: "readonly h \<Longrightarrow> readonly (fst (step c (h, w)))"
  by (cases c; cases h)
     (simp_all add: h_read_def h_write_def h_seek_def h_tell_def h_flush_def h_close_def
       split: prod.splits)

lemma run_keeps_world:
  assumes "Close \<notin> set cs \<or> readonly h"
  shows "snd (run cs (h, w)) = w"
  using assms
proof (induction cs arbitrary: h)
  case Nil
  then show ?case by simp
next
  case (Cons c cs)
  obtain h' w' where st: "step c (h, w) = (h', w')" by (cases "step c (h, w)")
  have w': "w' = w" using step_keeps_world[of c h w] Cons.prems st by auto
  have "Close \<notin> set cs \<or> readonly h'"
    using Cons.prems step_keeps_readonly[of h c w] st by auto
  then show ?case using Cons.IH[of h'] st w' by simp
qed

lemma ro_fileobj_readonly:
  "text_fileobj src False = Inr h \<Longrightarrow> readonly h"
  "bytes_fileobj src False = Inr h \<Longrightarrow> readonly h"
  by (auto simp: text_fileobj_def bytes_fileobj_def text_ro_StringIO_def bytes_ro_StringIO_def
      split: sum.splits payload.splits)

text \<open>
  C7: whatever a caller does with a read-only handle of a source (obtained with or without
  a conversion between text and bytes, and closed or not), the source is afterwards as it
  was; and whatever a caller does with a writable handle short of closing it, writes
  included, the source is as it was. So the stored content changes at the close of a
  writable handle only.
\<close>

theorem content_changes_at_close_only:
  "(text_fileobj src False = Inr h \<or> bytes_fileobj src False = Inr h
      \<longrightarrow> snd (run cs (h, src)) = src)
   \<and> ((text_fileobj src True = Inr h \<or> bytes_fileobj src True = Inr h) \<and> Close \<notin> set cs
      \<longrightarrow> snd (run cs (h, src)) = src)
   \<and> (Close \<notin> set cs \<or> readonly h' \<longrightarrow> snd (run cs (h', w)) = w)"
  using ro_fileobj_readonly[of src h] run_keeps_world[of cs h src] run_keeps_world[of cs h' w]
  by blast


theorem content_changes_at_close_only_witness:
  "text_fileobj (data_source (Bytes [102]) True) False
     = Inr (Text_ro_StringIO \<lparr>buf = [102], pos = 0, closed = False\<rparr>)
   \<and> snd (run [Read (- 1), Write (Str [120]), Close]
        (Text_ro_StringIO \<lparr>buf = [102], pos = 0, closed = False\<rparr>,
         data_source (Bytes [102]) True)) = data_source (Bytes [102]) True
   \<and> text_fileobj (data_source (Bytes [102]) True) True
     = Inr (Text_wr_StringIO \<lparr>base = \<lparr>buf = [102], pos = 0, closed = False\<rparr>,
                              callback = Some bound_reset_data\<rparr>)
   \<and> Close \<notin> set [Write (Str [120, 121]), Seek 0, Read (- 1)]
   \<and> snd (run [Write (Str [120, 121]), Seek 0, Read (- 1)]
        (Text_wr_StringIO \<lparr>base = \<lparr>buf = [102], pos = 0, closed = False\<rparr>,
                           callback = Some bound_reset_data\<rparr>,
         data_source (Bytes [102]) True)) = data_source (Bytes [102]) True
   \<and> readonly (Bytes_ro_StringIO \<lparr>buf = [102], pos = 0, closed = False\<rparr> :: source handle)
   \<and> snd (run [Close, Close]
        (Bytes_ro_StringIO \<lparr>buf = [102], pos = 0, closed = False\<rparr>,
         data_source (Bytes [102]) True)) = data_source (Bytes [102]) True"
proof -
  have 1: "text_fileobj (data_source (Bytes [102]) True) False
     = Inr (Text_ro_StringIO \<lparr>buf = [102], pos = 0, closed = False\<rparr>)"
    by (simp add: text_fileobj_def data_source_def convert_data_def text_ro_StringIO_def
        s_init_def prepend_def)
  have 2: "text_fileobj (data_source (Bytes [102]) True) True
     = Inr (Text_wr_StringIO \<lparr>base = \<lparr>buf = [102], pos = 0, closed = False\<rparr>,
                              callback = Some bound_reset_data\<rparr>)"
    by (simp add: text_fileobj_def data_source_def convert_data_def text_wr_StringIO_def
        s_init_def prepend_def)
  have 3: "Close \<notin> set [Write (Str [120, 121]), Seek 0, Read (- 1)]" by simp
  have 4: "readonly (Bytes_ro_StringIO \<lparr>buf = [102], pos = 0, closed = False\<rparr> :: source handle)"
    by simp
  from content_changes_at_close_only
      [of "data_source (Bytes [102]) True"
          "Text_ro_StringIO \<lparr>buf = [102], pos = 0, closed = False\<rparr>"
          "[Read (- 1), Write (Str [120]), Close]"
          "Bytes_ro_StringIO \<lparr>buf = [102], pos = 0, closed = False\<rparr>"
          "data_source (Bytes [102]) True"] 1
  have a: "snd (run [Read (- 1), Write (Str [120]), Close]
        (Text_ro_StringIO \<lparr>buf = [102], pos = 0, closed = False\<rparr>,
         data_source (Bytes [102]) True)) = data_source (Bytes [102]) True"
    by blast
  from content_changes_at_close_only
      [of "data_source (Bytes [102]) True"
          "Text_wr_StringIO \<lparr>base = \<lparr>buf = [102], pos = 0, closed = False\<rparr>,
                              callback = Some bound_reset_data\<rparr>"
          "[Write (Str [120, 121]), Seek 0, Read (- 1)]"
          "Bytes_ro_StringIO \<lparr>buf = [102], pos = 0, closed = False\<rparr>"
          "data_source (Bytes [102]) True"] 2 3
  have b: "snd (run [Write (Str [120, 121]), Seek 0, Read (- 1)]
        (Text_wr_StringIO \<lparr>base = \<lparr>buf = [102], pos = 0, closed = False\<rparr>,
                           callback = Some bound_reset_data\<rparr>,
         data_source (Bytes [102]) True)) = data_source (Bytes [102]) True"
    by blast
  from content_changes_at_close_only
      [of "data_source (Bytes [102]) True"
          "Text_ro_StringIO \<lparr>buf = [102], pos = 0, closed = False\<rparr>"
          "[Close, Close]"
          "Bytes_ro_StringIO \<lparr>buf = [102], pos = 0, closed = False\<rparr>"
          "data_source (Bytes [102]) True"] 4
  have c: "snd (run [Close, Close]
        (Bytes_ro_StringIO \<lparr>buf = [102], pos = 0, closed = False\<rparr>,
         data_source (Bytes [102]) True)) = data_source (Bytes [102]) True"
    by blast
  from 1 2 3 4 a b c show ?thesis by blast
qed


section \<open>The commit at close\<close>

text \<open>
  A handle from \<^verbatim>\<open>text_fileobj(True)\<close> or \<^verbatim>\<open>bytes_fileobj(True)\<close> is armed with the source's
  \<^verbatim>\<open>_reset_data\<close>, and stays so under every call but a close. A close of an armed handle
  calls the callback with the whole buffer; when the callback returns, the handle is spent,
  and nothing a caller does with a spent handle reaches the callback again.
\<close>

lemma wr_fileobj_armed:
  "text_fileobj src True = Inr h \<Longrightarrow> armed h bound_reset_data"
  "bytes_fileobj src True = Inr h \<Longrightarrow> armed h bound_reset_data"
  by (auto simp: text_fileobj_def bytes_fileobj_def text_wr_StringIO_def bytes_wr_StringIO_def
      s_init_def split: if_splits sum.splits payload.splits)

lemma step_keeps_armed:
  "armed h f \<Longrightarrow> c \<noteq> Close \<Longrightarrow> armed (fst (step c (h, w))) f"
  by (cases c; cases h)
     (auto simp: h_read_def h_write_def h_seek_def h_tell_def h_flush_def
       s_read_def s_write_def s_seek_def Let_def split: prod.splits payload.splits if_splits)

lemma run_keeps_armed:
  "armed h f \<Longrightarrow> Close \<notin> set cs \<Longrightarrow> armed (fst (run cs (h, w))) f"
proof (induction cs arbitrary: h w)
  case Nil
  then show ?case by simp
next
  case (Cons c cs)
  obtain h' w' where st: "step c (h, w) = (h', w')" by (cases "step c (h, w)")
  have "armed h' f" using step_keeps_armed[of h f c w] Cons.prems st by auto
  then show ?case using Cons.IH[of h' w'] Cons.prems st by simp
qed

lemma close_armed_raises:
  assumes "armed h f" and "f (content h) w = (Inl e, w')"
  shows "h_close h w = (Inl e, snd (h_read (- 1) (snd (h_seek 0 h))), w')"
  using assms
  by (cases h)
     (auto simp: h_close_def kls_close_open text_flush_id bytes_flush_open h_seek_def h_read_def
       s_seek_def s_read_def Let_def)

lemma close_armed_returns:
  assumes "armed h f" and "f (content h) w = (Inr u, w')"
  shows "\<exists>h'. h_close h w = (Inr (), h', w') \<and> spent h' \<and> content h' = content h"
  using assms
  by (cases h)
     (auto simp: h_close_def kls_close_open text_flush_id bytes_flush_open)

lemma step_spent: "spent h \<Longrightarrow> spent (fst (step c (h, w))) \<and> snd (step c (h, w)) = w"
  by (cases c; cases h)
     (auto simp: h_read_def h_write_def h_seek_def h_tell_def h_flush_def h_close_def
       kls_close_def text_flush_def bytes_flush_def s_close_def
       s_read_def s_write_def s_seek_def Let_def split: prod.splits payload.splits if_splits)

lemma run_spent: "spent h \<Longrightarrow> snd (run cs (h, w)) = w"
proof (induction cs arbitrary: h)
  case Nil
  then show ?case by simp
next
  case (Cons c cs)
  obtain h' w' where st: "step c (h, w) = (h', w')" by (cases "step c (h, w)")
  have "spent h'" "w' = w" using step_spent[of h c w] Cons.prems st by simp_all
  then show ?case using Cons.IH[of h'] st by simp
qed


lemma map_sum_Inr: "map_sum f g x = Inr y \<longleftrightarrow> (\<exists>b. x = Inr b \<and> y = g b)"
  by (cases x) auto

lemma reset_data_kind:
  assumes "reset_data src d = Inr src'" and "is_str d \<or> is_bytes d"
  shows "src' = src\<lparr>data := data src'\<rparr>
       \<and> is_bytes (data src') = is_bytes (data src)
       \<and> (is_str (data src) \<longrightarrow> is_str (data src'))
       \<and> (if is_bytes (data src) = is_bytes d then data src' = d
          else if is_bytes (data src) then py_encode d = Inr (data src')
          else py_decode d = Inr (data src'))"
  using assms
  by (cases d; cases "data src")
     (auto simp: reset_data_def map_sum_Inr split: sum.splits if_splits)

lemma content_kind: "is_str (content h) \<or> is_bytes (content h)"
  by (cases h) simp_all

text \<open>
  C3, as stated, says that the close of a writable handle replaces the stored content and
  that the callback runs at most once per handle. \<^verbatim>\<open>kls.close\<close> clears the slot after the
  callback has returned only. On \<^verbatim>\<open>data_source("foo", mutable=True)\<close>, take a writable bytes
  handle and write the byte \<open>0xFF\<close>: the close calls \<^verbatim>\<open>_reset_data\<close>, whose decoding
  raises; the content is not replaced, the handle stays open and the callback set. A second
  close calls \<^verbatim>\<open>_reset_data\<close> again and raises again; after a repair of the buffer it
  commits. The callback has run twice on one handle.
\<close>

theorem close_commits_once_counterexample:
  "bytes_fileobj (data_source (Str [102, 111, 111]) True) True
     = Inr (Bytes_wr_StringIO \<lparr>base = \<lparr>buf = [102, 111, 111], pos = 0, closed = False\<rparr>,
        callback = Some bound_reset_data\<rparr>)
   \<and> run [Write (Bytes [255])]
       (Bytes_wr_StringIO \<lparr>base = \<lparr>buf = [102, 111, 111], pos = 0, closed = False\<rparr>,
        callback = Some bound_reset_data\<rparr>,
        data_source (Str [102, 111, 111]) True)
     = (Bytes_wr_StringIO \<lparr>base = \<lparr>buf = [255, 111, 111], pos = 1, closed = False\<rparr>,
        callback = Some bound_reset_data\<rparr>,
        data_source (Str [102, 111, 111]) True)
   \<and> h_close (Bytes_wr_StringIO \<lparr>base = \<lparr>buf = [255, 111, 111], pos = 1, closed = False\<rparr>,
        callback = Some bound_reset_data\<rparr>)
       (data_source (Str [102, 111, 111]) True)
     = (Inl UnicodeDecodeError,
        Bytes_wr_StringIO \<lparr>base = \<lparr>buf = [255, 111, 111], pos = 3, closed = False\<rparr>,
        callback = Some bound_reset_data\<rparr>,
        data_source (Str [102, 111, 111]) True)
   \<and> h_close (Bytes_wr_StringIO \<lparr>base = \<lparr>buf = [255, 111, 111], pos = 3, closed = False\<rparr>,
        callback = Some bound_reset_data\<rparr>)
       (data_source (Str [102, 111, 111]) True)
     = (Inl UnicodeDecodeError,
        Bytes_wr_StringIO \<lparr>base = \<lparr>buf = [255, 111, 111], pos = 3, closed = False\<rparr>,
        callback = Some bound_reset_data\<rparr>,
        data_source (Str [102, 111, 111]) True)
   \<and> snd (run [Close, Seek 0, Write (Bytes [98]), Close]
       (Bytes_wr_StringIO \<lparr>base = \<lparr>buf = [255, 111, 111], pos = 1, closed = False\<rparr>,
        callback = Some bound_reset_data\<rparr>,
        data_source (Str [102, 111, 111]) True))
     = (data_source (Str [102, 111, 111]) True)\<lparr>data := Str [98, 111, 111]\<rparr>"
proof -
  have 1: "bytes_fileobj (data_source (Str [102, 111, 111]) True) True
     = Inr (Bytes_wr_StringIO \<lparr>base = \<lparr>buf = [102, 111, 111], pos = 0, closed = False\<rparr>,
        callback = Some bound_reset_data\<rparr>)"
    by (simp add: bytes_fileobj_def data_source_def convert_data_def bytes_wr_StringIO_def
        s_init_def encode_char_def byte_of_def)
  have 2: "run [Write (Bytes [255])]
       (Bytes_wr_StringIO \<lparr>base = \<lparr>buf = [102, 111, 111], pos = 0, closed = False\<rparr>,
        callback = Some bound_reset_data\<rparr>,
        data_source (Str [102, 111, 111]) True)
     = (Bytes_wr_StringIO \<lparr>base = \<lparr>buf = [255, 111, 111], pos = 1, closed = False\<rparr>,
        callback = Some bound_reset_data\<rparr>,
        data_source (Str [102, 111, 111]) True)"
    by (simp add: h_write_def s_write_def overwrite_def)
  have 3: "h_close (Bytes_wr_StringIO \<lparr>base = \<lparr>buf = [255, 111, 111], pos = 1, closed = False\<rparr>,
        callback = Some bound_reset_data\<rparr>)
       (data_source (Str [102, 111, 111]) True)
     = (Inl UnicodeDecodeError,
        Bytes_wr_StringIO \<lparr>base = \<lparr>buf = [255, 111, 111], pos = 3, closed = False\<rparr>,
        callback = Some bound_reset_data\<rparr>,
        data_source (Str [102, 111, 111]) True)"
    by (simp add: h_close_def kls_close_def bytes_flush_def s_seek_def s_read_def
        s_close_def Let_def bound_reset_data_def reset_data_def data_source_def)
  have 4: "h_close (Bytes_wr_StringIO \<lparr>base = \<lparr>buf = [255, 111, 111], pos = 3, closed = False\<rparr>,
        callback = Some bound_reset_data\<rparr>)
       (data_source (Str [102, 111, 111]) True)
     = (Inl UnicodeDecodeError,
        Bytes_wr_StringIO \<lparr>base = \<lparr>buf = [255, 111, 111], pos = 3, closed = False\<rparr>,
        callback = Some bound_reset_data\<rparr>,
        data_source (Str [102, 111, 111]) True)"
    by (simp add: h_close_def kls_close_def bytes_flush_def s_seek_def s_read_def
        s_close_def Let_def bound_reset_data_def reset_data_def data_source_def)
  have 5: "snd (run [Close, Seek 0, Write (Bytes [98]), Close]
       (Bytes_wr_StringIO \<lparr>base = \<lparr>buf = [255, 111, 111], pos = 1, closed = False\<rparr>,
        callback = Some bound_reset_data\<rparr>,
        data_source (Str [102, 111, 111]) True))
     = (data_source (Str [102, 111, 111]) True)\<lparr>data := Str [98, 111, 111]\<rparr>"
    by (simp add: h_close_def kls_close_def bytes_flush_def s_seek_def s_read_def
        s_close_def Let_def bound_reset_data_def reset_data_def data_source_def
        h_seek_def h_write_def s_write_def overwrite_def prepend_def)
  from 1 2 3 4 5 show ?thesis by blast
qed

text \<open>
  C3, amended: let a writable handle of a source be used in any way short of closing it,
  and then be closed. Until the close the source is as it was. The close flushes, seeks to
  0, reads the whole buffer and calls the source's \<^verbatim>\<open>_reset_data\<close> with it. The callback
  converts the content to the representation the source holds: a source of bytes keeps
  bytes and a source of text keeps text, the committed value being stored as it is when it
  has that type and encoded, respectively decoded, when it has the other. Where the
  conversion succeeds the stored content is replaced, the slot is emptied and the stream
  closed: whatever is called on the handle afterwards, a second close included, leaves every
  source as it is. Where the conversion raises, the close raises the same error at the call
  of the callback: the stored content is unchanged, the handle stays open at the end of its
  buffer and the callback stays set.
\<close>

theorem close_commits_once:
  assumes "text_fileobj src0 True = Inr h0 \<or> bytes_fileobj src0 True = Inr h0"
    and "Close \<notin> set cs" and "run cs (h0, src0) = (h, src)"
  shows "src = src0
       \<and> (\<forall>e. reset_data src (content h) = Inl e \<longrightarrow>
            h_close h src = (Inl e, snd (h_read (- 1) (snd (h_seek 0 h))), src))
       \<and> (\<forall>src'. reset_data src (content h) = Inr src' \<longrightarrow>
            (\<exists>h'. h_close h src = (Inr (), h', src') \<and> spent h'
                  \<and> (\<forall>cs' s. snd (run cs' (h', s)) = s))
          \<and> src' = src\<lparr>data := data src'\<rparr>
          \<and> is_bytes (data src') = is_bytes (data src)
          \<and> (is_str (data src) \<longrightarrow> is_str (data src'))
          \<and> (if is_bytes (data src) = is_bytes (content h) then data src' = content h
             else if is_bytes (data src) then py_encode (content h) = Inr (data src')
             else py_decode (content h) = Inr (data src')))"
proof -
  have a0: "armed h0 bound_reset_data" using assms(1) wr_fileobj_armed by blast
  have a: "armed h bound_reset_data"
    using run_keeps_armed[OF a0 assms(2), of src0] assms(3) by simp
  have s: "src = src0" using run_keeps_world[of cs h0 src0] assms(2,3) by simp
  have f: "h_close h src = (Inl e, snd (h_read (- 1) (snd (h_seek 0 h))), src)"
    if "reset_data src (content h) = Inl e" for e
    using close_armed_raises[OF a, of src e src] that by (simp add: bound_reset_data_def)
  have g: "\<exists>h'. h_close h src = (Inr (), h', src') \<and> spent h'
                  \<and> (\<forall>cs' s. snd (run cs' (h', s)) = s)"
    if "reset_data src (content h) = Inr src'" for src'
    using close_armed_returns[OF a, of src "()" src'] that run_spent
    by (auto simp: bound_reset_data_def)
  show ?thesis
    using s f g reset_data_kind[OF _ content_kind[of h], of src] by blast
qed


theorem close_commits_once_witness:
  "bytes_fileobj (data_source (Str [102, 111, 111]) True) True
     = Inr (Bytes_wr_StringIO \<lparr>base = \<lparr>buf = [102, 111, 111], pos = 0, closed = False\<rparr>,
        callback = Some bound_reset_data\<rparr>)
   \<and> Close \<notin> set [Write (Bytes [98])]
   \<and> run [Write (Bytes [98])]
       (Bytes_wr_StringIO \<lparr>base = \<lparr>buf = [102, 111, 111], pos = 0, closed = False\<rparr>,
        callback = Some bound_reset_data\<rparr>,
        data_source (Str [102, 111, 111]) True)
     = (Bytes_wr_StringIO \<lparr>base = \<lparr>buf = [98, 111, 111], pos = 1, closed = False\<rparr>,
        callback = Some bound_reset_data\<rparr>,
        data_source (Str [102, 111, 111]) True)
   \<and> reset_data (data_source (Str [102, 111, 111]) True)
       (content (Bytes_wr_StringIO \<lparr>base = \<lparr>buf = [98, 111, 111], pos = 1, closed = False\<rparr>,
        callback = Some bound_reset_data\<rparr> :: source handle))
     = Inr ((data_source (Str [102, 111, 111]) True)\<lparr>data := Str [98, 111, 111]\<rparr>)
   \<and> fst (h_close (Bytes_wr_StringIO \<lparr>base = \<lparr>buf = [98, 111, 111], pos = 1, closed = False\<rparr>,
        callback = Some bound_reset_data\<rparr>)
        (data_source (Str [102, 111, 111]) True)) = Inr ()
   \<and> snd (snd (h_close (Bytes_wr_StringIO \<lparr>base = \<lparr>buf = [98, 111, 111], pos = 1, closed = False\<rparr>,
        callback = Some bound_reset_data\<rparr>)
        (data_source (Str [102, 111, 111]) True)))
     = (data_source (Str [102, 111, 111]) True)\<lparr>data := Str [98, 111, 111]\<rparr>
   \<and> snd (run [Close, Write (Bytes [99]), Close]
        (fst (snd (h_close (Bytes_wr_StringIO \<lparr>base = \<lparr>buf = [98, 111, 111], pos = 1, closed = False\<rparr>,
        callback = Some bound_reset_data\<rparr>)
           (data_source (Str [102, 111, 111]) True))),
         (data_source (Str [102, 111, 111]) True)\<lparr>data := Str [98, 111, 111]\<rparr>))
     = (data_source (Str [102, 111, 111]) True)\<lparr>data := Str [98, 111, 111]\<rparr>
   \<and> Close \<notin> set [Write (Bytes [255])]
   \<and> run [Write (Bytes [255])]
       (Bytes_wr_StringIO \<lparr>base = \<lparr>buf = [102, 111, 111], pos = 0, closed = False\<rparr>,
        callback = Some bound_reset_data\<rparr>,
        data_source (Str [102, 111, 111]) True)
     = (Bytes_wr_StringIO \<lparr>base = \<lparr>buf = [255, 111, 111], pos = 1, closed = False\<rparr>,
        callback = Some bound_reset_data\<rparr>,
        data_source (Str [102, 111, 111]) True)
   \<and> reset_data (data_source (Str [102, 111, 111]) True)
       (content (Bytes_wr_StringIO \<lparr>base = \<lparr>buf = [255, 111, 111], pos = 1, closed = False\<rparr>,
        callback = Some bound_reset_data\<rparr> :: source handle))
     = Inl UnicodeDecodeError
   \<and> h_close (Bytes_wr_StringIO \<lparr>base = \<lparr>buf = [255, 111, 111], pos = 1, closed = False\<rparr>,
        callback = Some bound_reset_data\<rparr>)
       (data_source (Str [102, 111, 111]) True)
     = (Inl UnicodeDecodeError,
        Bytes_wr_StringIO \<lparr>base = \<lparr>buf = [255, 111, 111], pos = 3, closed = False\<rparr>,
        callback = Some bound_reset_data\<rparr>,
        data_source (Str [102, 111, 111]) True)"
proof -
  have 1: "bytes_fileobj (data_source (Str [102, 111, 111]) True) True
     = Inr (Bytes_wr_StringIO \<lparr>base = \<lparr>buf = [102, 111, 111], pos = 0, closed = False\<rparr>,
        callback = Some bound_reset_data\<rparr>)"
    by (simp add: bytes_fileobj_def data_source_def convert_data_def bytes_wr_StringIO_def
        s_init_def encode_char_def byte_of_def)
  have 2: "run [Write (Bytes [98])]
       (Bytes_wr_StringIO \<lparr>base = \<lparr>buf = [102, 111, 111], pos = 0, closed = False\<rparr>,
        callback = Some bound_reset_data\<rparr>,
        data_source (Str [102, 111, 111]) True)
     = (Bytes_wr_StringIO \<lparr>base = \<lparr>buf = [98, 111, 111], pos = 1, closed = False\<rparr>,
        callback = Some bound_reset_data\<rparr>,
        data_source (Str [102, 111, 111]) True)"
    by (simp add: h_write_def s_write_def overwrite_def)
  have 3: "reset_data (data_source (Str [102, 111, 111]) True)
       (content (Bytes_wr_StringIO \<lparr>base = \<lparr>buf = [98, 111, 111], pos = 1, closed = False\<rparr>,
        callback = Some bound_reset_data\<rparr> :: source handle))
     = Inr ((data_source (Str [102, 111, 111]) True)\<lparr>data := Str [98, 111, 111]\<rparr>)"
    by (simp add: reset_data_def data_source_def prepend_def)
  have 4: "run [Write (Bytes [255])]
       (Bytes_wr_StringIO \<lparr>base = \<lparr>buf = [102, 111, 111], pos = 0, closed = False\<rparr>,
        callback = Some bound_reset_data\<rparr>,
        data_source (Str [102, 111, 111]) True)
     = (Bytes_wr_StringIO \<lparr>base = \<lparr>buf = [255, 111, 111], pos = 1, closed = False\<rparr>,
        callback = Some bound_reset_data\<rparr>,
        data_source (Str [102, 111, 111]) True)"
    by (simp add: h_write_def s_write_def overwrite_def)
  have 5: "reset_data (data_source (Str [102, 111, 111]) True)
       (content (Bytes_wr_StringIO \<lparr>base = \<lparr>buf = [255, 111, 111], pos = 1, closed = False\<rparr>,
        callback = Some bound_reset_data\<rparr> :: source handle))
     = Inl UnicodeDecodeError"
    by (simp add: reset_data_def data_source_def)
  have n: "Close \<notin> set [Write (Bytes [98])]" "Close \<notin> set [Write (Bytes [255])]"
    by simp_all
  note a = close_commits_once[OF disjI2[OF 1] n(1) 2]
  note b = close_commits_once[OF disjI2[OF 1] n(2) 4]
  from a 3 obtain h' where
    c: "h_close (Bytes_wr_StringIO \<lparr>base = \<lparr>buf = [98, 111, 111], pos = 1, closed = False\<rparr>,
        callback = Some bound_reset_data\<rparr>)
        (data_source (Str [102, 111, 111]) True) = (Inr (), h', (data_source (Str [102, 111, 111]) True)\<lparr>data := Str [98, 111, 111]\<rparr>)"
    and r: "\<forall>cs' s. snd (run cs' (h', s)) = s"
    by blast
  have g1: "fst (h_close (Bytes_wr_StringIO \<lparr>base = \<lparr>buf = [98, 111, 111], pos = 1, closed = False\<rparr>,
        callback = Some bound_reset_data\<rparr>)
        (data_source (Str [102, 111, 111]) True)) = Inr ()" using c by simp
  have g2: "snd (snd (h_close (Bytes_wr_StringIO \<lparr>base = \<lparr>buf = [98, 111, 111], pos = 1, closed = False\<rparr>,
        callback = Some bound_reset_data\<rparr>)
        (data_source (Str [102, 111, 111]) True)))
     = (data_source (Str [102, 111, 111]) True)\<lparr>data := Str [98, 111, 111]\<rparr>" using c by simp
  have g3: "snd (run [Close, Write (Bytes [99]), Close]
        (fst (snd (h_close (Bytes_wr_StringIO \<lparr>base = \<lparr>buf = [98, 111, 111], pos = 1, closed = False\<rparr>,
        callback = Some bound_reset_data\<rparr>)
           (data_source (Str [102, 111, 111]) True))),
         (data_source (Str [102, 111, 111]) True)\<lparr>data := Str [98, 111, 111]\<rparr>))
     = (data_source (Str [102, 111, 111]) True)\<lparr>data := Str [98, 111, 111]\<rparr>" by (simp only: c fst_conv snd_conv r[rule_format])
  have g4: "h_close (Bytes_wr_StringIO \<lparr>base = \<lparr>buf = [255, 111, 111], pos = 1, closed = False\<rparr>,
        callback = Some bound_reset_data\<rparr>)
       (data_source (Str [102, 111, 111]) True)
     = (Inl UnicodeDecodeError,
        Bytes_wr_StringIO \<lparr>base = \<lparr>buf = [255, 111, 111], pos = 3, closed = False\<rparr>,
        callback = Some bound_reset_data\<rparr>,
        data_source (Str [102, 111, 111]) True)"
    using b 5 by (simp add: h_seek_def h_read_def s_seek_def s_read_def Let_def)
  from 1 2 3 4 5 n g1 g2 g3 g4 show ?thesis by blast
qed


section \<open>The transfer\<close>











































end
